theory Spec2Isabelle
  imports Main "HOL-Library.AList"
begin

section \<open>WorkQueue: the linked-list queue of \<^verbatim>\<open>src/Queue.ts\<close>\<close>

text \<open>
  \<^verbatim>\<open>class Node<T> { value: T; next?: Node<T> }\<close> and
  \<^verbatim>\<open>class Queue<T> { root?: Node<T>; last?: Node<T> }\<close>.
  Nodes are objects that are shared between \<open>root\<close>, \<open>last\<close> and the \<open>next\<close> fields, and
  \<open>push\<close> mutates the old last node through its alias, so the objects live in an explicit
  store: a list of nodes, the address of a node being its index. \<open>new Node(item)\<close>
  allocates at the end of the store. An absent (\<open>undefined\<close>) reference is \<open>None\<close>.
\<close>

record 'a qnode =
  node_value :: 'a
  node_next :: "nat option"

record 'a queue =
  heap :: "'a qnode list"
  q_root :: "nat option"
  q_last :: "nat option"

definition new_queue :: "'a queue" where
  "new_queue = \<lparr>heap = [], q_root = None, q_last = None\<rparr>"

definition push :: "'a \<Rightarrow> 'a queue \<Rightarrow> 'a queue" where
  "push item q =
     (let node = length (heap q);
          h = heap q @ [\<lparr>node_value = item, node_next = None\<rparr>]
      in if q_root q = None \<or> q_last q = None
         then q\<lparr>heap := h, q_root := Some node, q_last := Some node\<rparr>
         else (let prevLast = the (q_last q)
               in q\<lparr>heap := h[prevLast := (h ! prevLast)\<lparr>node_next := Some node\<rparr>],
                    q_last := Some node\<rparr>))"

definition pop :: "'a queue \<Rightarrow> 'a option \<times> 'a queue" where
  "pop q =
     (case q_root q of
        None \<Rightarrow> (None, q)
      | Some prevRoot \<Rightarrow>
          (Some (node_value (heap q ! prevRoot)),
           q\<lparr>q_root := node_next (heap q ! prevRoot)\<rparr>))"

definition hasItems :: "'a queue \<Rightarrow> bool" where
  "hasItems q = (q_root q \<noteq> None)"

text \<open>The reference FIFO of the specification: a list, appended at the tail, removed at the head.\<close>

definition fifo_enqueue :: "'a \<Rightarrow> 'a list \<Rightarrow> 'a list" where
  "fifo_enqueue item xs = xs @ [item]"

definition fifo_dequeue :: "'a list \<Rightarrow> 'a option \<times> 'a list" where
  "fifo_dequeue xs = (case xs of [] \<Rightarrow> (None, []) | x # rest \<Rightarrow> (Some x, rest))"

definition fifo_hasItems :: "'a list \<Rightarrow> bool" where
  "fifo_hasItems xs = (xs \<noteq> [])"

text \<open>A client program over the queue, and what it observes.\<close>

datatype 'a queue_op = Push 'a | Pop | HasItems

datatype 'a queue_obs = Pushed | Popped "'a option" | Has bool

fun run_queue :: "'a queue \<Rightarrow> 'a queue_op list \<Rightarrow> 'a queue_obs list" where
  "run_queue q [] = []"
| "run_queue q (Push item # ops) = Pushed # run_queue (push item q) ops"
| "run_queue q (Pop # ops) = (case pop q of (r, q') \<Rightarrow> Popped r # run_queue q' ops)"
| "run_queue q (HasItems # ops) = Has (hasItems q) # run_queue q ops"

fun run_fifo :: "'a list \<Rightarrow> 'a queue_op list \<Rightarrow> 'a queue_obs list" where
  "run_fifo xs [] = []"
| "run_fifo xs (Push item # ops) = Pushed # run_fifo (fifo_enqueue item xs) ops"
| "run_fifo xs (Pop # ops) = (case fifo_dequeue xs of (r, xs') \<Rightarrow> Popped r # run_fifo xs' ops)"
| "run_fifo xs (HasItems # ops) = Has (fifo_hasItems xs) # run_fifo xs ops"

text \<open>
  The chain of addresses reached from a reference by following \<open>next\<close> until it is absent,
  and the invariant that ties a queue to the addresses of its pending nodes.
\<close>

fun chain :: "'a qnode list \<Rightarrow> nat option \<Rightarrow> nat list \<Rightarrow> bool" where
  "chain h p [] = (p = None)"
| "chain h p (a # as) = (p = Some a \<and> a < length h \<and> chain h (node_next (h ! a)) as)"

definition queue_inv :: "'a queue \<Rightarrow> nat list \<Rightarrow> bool" where
  "queue_inv q as =
     (chain (heap q) (q_root q) as \<and> distinct as \<and> (as \<noteq> [] \<longrightarrow> q_last q = Some (last as)))"

definition pending :: "'a queue \<Rightarrow> nat list \<Rightarrow> 'a list" where
  "pending q as = map (\<lambda>a. node_value (heap q ! a)) as"

section \<open>The Node runtime the analyzer runs on\<close>

text \<open>
  \<^verbatim>\<open>src/index.ts\<close> calls Node's \<^verbatim>\<open>path\<close> and \<^verbatim>\<open>fs\<close> modules, \<^verbatim>\<open>require.resolve\<close>, and Babel's
  \<^verbatim>\<open>parse\<close> and \<^verbatim>\<open>traverse\<close>. None of them is code of the repository, so they are the fields of
  an environment that every function of the model takes. A call that throws returns \<open>None\<close>.
\<close>

type_synonym FilePath = string

text \<open>
  What \<^verbatim>\<open>traverse\<close> hands to the visitors. A call expression is read through
  \<^verbatim>\<open>node.callee.name\<close>, \<^verbatim>\<open>node.arguments[0]\<close> and \<^verbatim>\<open>node.loc?.start\<close>; its container through
  \<^verbatim>\<open>container.id?.type\<close> and \<^verbatim>\<open>container.property?.name\<close> (an absent field is \<open>None\<close>).
\<close>

datatype argument =
    StringLiteral string
  | BigIntLiteral string
  | NumericLiteral int
  | BooleanLiteral bool
  | Identifier string
  | OtherExpression

datatype jsval = JUndefined | JString string | JNumber int | JBoolean bool

text \<open>
  The \<^verbatim>\<open>value\<close> property of an argument node. Besides a string literal, a BigInt literal
  carries a string (\<^verbatim>\<open>10n\<close> has the value \<^verbatim>\<open>'10'\<close>); a numeric and a boolean literal carry a
  number and a boolean; an identifier and every other expression (a template literal, a
  call, a concatenation, \<^verbatim>\<open>null\<close>, a regular expression) have no \<^verbatim>\<open>value\<close>.
\<close>

fun argument_value :: "argument \<Rightarrow> jsval" where
  "argument_value (StringLiteral s) = JString s"
| "argument_value (BigIntLiteral digits) = JString digits"
| "argument_value (NumericLiteral n) = JNumber n"
| "argument_value (BooleanLiteral b) = JBoolean b"
| "argument_value (Identifier x) = JUndefined"
| "argument_value OtherExpression = JUndefined"

record call_expression =
  callee_name :: "string option"
  arguments :: "argument list"
  loc_start :: "(nat \<times> nat) option"

record container =
  id_type :: "string option"
  property_name :: "string option"

datatype node =
    CallExpression call_expression container
  | ExportDefaultDeclaration
  | ImportDeclaration string
  | OtherNode

text \<open>
  The containers of the two call sites the analyzer tells apart: in
  \<^verbatim>\<open>const x = require('m')\<close> the call is the \<^verbatim>\<open>init\<close> of a variable declarator whose \<^verbatim>\<open>id\<close> is
  the identifier \<^verbatim>\<open>x\<close>; in \<^verbatim>\<open>const x = require('m').default\<close> it is the \<^verbatim>\<open>object\<close> of a member
  expression, which has a \<^verbatim>\<open>property\<close> and no \<^verbatim>\<open>id\<close>.
\<close>

definition VariableDeclarator :: "string \<Rightarrow> container" where
  "VariableDeclarator idType = \<lparr>id_type = Some idType, property_name = None\<rparr>"

definition MemberExpression :: "string \<Rightarrow> container" where
  "MemberExpression prop = \<lparr>id_type = None, property_name = Some prop\<rparr>"

definition require_call :: "argument list \<Rightarrow> (nat \<times> nat) option \<Rightarrow> call_expression" where
  "require_call args loc = \<lparr>callee_name = Some ''require'', arguments = args, loc_start = loc\<rparr>"

record node_env =
  path_sep :: char
  path_isAbsolute :: "string \<Rightarrow> bool"
  path_extname :: "string \<Rightarrow> string"
  path_basename :: "string \<Rightarrow> string"
  path_dirname :: "string \<Rightarrow> string"
  path_join :: "string \<Rightarrow> string \<Rightarrow> string"
  path_parse :: "string \<Rightarrow> string \<times> string"
  fs_existsSync :: "string \<Rightarrow> bool"
  fs_readdirSync :: "string \<Rightarrow> string list option"
  fs_readFileSync :: "string \<Rightarrow> string option"
  require_resolve :: "string \<Rightarrow> string list option \<Rightarrow> string option"
  babel_parse :: "string \<Rightarrow> node list option"

text \<open>
  How a run can end other than by returning: \<^verbatim>\<open>process.exit(code)\<close> after a \<^verbatim>\<open>console.log\<close> of
  the given parts (the colours that \<^verbatim>\<open>chalk\<close> adds are left out), an uncaught \<^verbatim>\<open>TypeError\<close>,
  the \<^verbatim>\<open>Error\<close> thrown for a file that does not parse, an uncaught exception of
  \<^verbatim>\<open>fs.readFileSync\<close>.
\<close>

datatype error =
    Exit nat "string list"
  | TypeError
  | ParseError FilePath
  | IOError FilePath

subsection \<open>JavaScript string operations\<close>

definition truthy :: "string \<Rightarrow> bool" where
  "truthy s = (s \<noteq> [])"

definition startsWith :: "string \<Rightarrow> string \<Rightarrow> bool" where
  "startsWith s pat = (take (length pat) s = pat)"

fun js_includes :: "string \<Rightarrow> string \<Rightarrow> bool" where
  "js_includes [] pat = (pat = [])"
| "js_includes (c # cs) pat = (startsWith (c # cs) pat \<or> js_includes cs pat)"

text \<open>\<^verbatim>\<open>s.replace(pat, rep)\<close> with a string pattern: the first occurrence only.\<close>

fun js_replace :: "string \<Rightarrow> string \<Rightarrow> string \<Rightarrow> string" where
  "js_replace [] pat rep = (if pat = [] then rep else [])"
| "js_replace (c # cs) pat rep =
     (if startsWith (c # cs) pat then rep @ drop (length pat) (c # cs)
      else c # js_replace cs pat rep)"

text \<open>\<^verbatim>\<open>s.split(sep)\<close> and \<^verbatim>\<open>parts.join(sep)\<close> for a one-character separator.\<close>

fun js_split :: "char \<Rightarrow> string \<Rightarrow> string list" where
  "js_split sep [] = [[]]"
| "js_split sep (c # cs) =
     (if c = sep then [] # js_split sep cs
      else (case js_split sep cs of p # ps \<Rightarrow> (c # p) # ps | [] \<Rightarrow> [[c]]))"

fun js_join :: "char \<Rightarrow> string list \<Rightarrow> string" where
  "js_join sep [] = []"
| "js_join sep [p] = p"
| "js_join sep (p # q # ps) = p @ sep # js_join sep (q # ps)"

definition digit_char :: "nat \<Rightarrow> char" where
  "digit_char d = ''0123456789'' ! (d mod 10)"

fun string_of_nat :: "nat \<Rightarrow> string" where
  "string_of_nat n = (if n < 10 then [digit_char n] else string_of_nat (n div 10) @ [digit_char n])"

text \<open>A parameter with a default value: the default stands in for \<^verbatim>\<open>undefined\<close>.\<close>

definition with_default :: "'a \<Rightarrow> 'a option \<Rightarrow> 'a" where
  "with_default d arg = (case arg of None \<Rightarrow> d | Some v \<Rightarrow> v)"

section \<open>PathResolver\<close>

text \<open>
  The resolution methods are the same text in both versions of the class in
  \<^verbatim>\<open>src/index.ts\<close>, up to the place of the root (\<^verbatim>\<open>this.root\<close> in the directory-scan version,
  \<^verbatim>\<open>this.options.root\<close> in the entry-seeded one); \<^verbatim>\<open>resolveFilePath\<close> differs and is modelled
  twice. A parameter that the source leaves \<^verbatim>\<open>undefined\<close> is \<open>None\<close>, replaced by its default
  where the source declares one.
\<close>

record config =
  root :: FilePath
  aliases :: "(string \<times> string) list"

definition PARSEABLE_EXTENSIONS :: "string set" where
  "PARSEABLE_EXTENSIONS = {''.ts'', ''.js'', ''.jsx''}"

definition printModulePath :: "node_env \<Rightarrow> config \<Rightarrow> FilePath \<Rightarrow> string" where
  "printModulePath env cfg filePath = js_replace filePath (root cfg @ [path_sep env]) []"

definition normalizeFilePath :: "node_env \<Rightarrow> FilePath \<Rightarrow> FilePath" where
  "normalizeFilePath env filePath =
     (if startsWith filePath (''.'' @ [path_sep env]) \<or> startsWith filePath (''..'' @ [path_sep env])
         \<or> path_isAbsolute env filePath
      then filePath
      else ''.'' @ [path_sep env] @ filePath)"

definition getFullPath :: "node_env \<Rightarrow> config \<Rightarrow> FilePath \<Rightarrow> FilePath option \<Rightarrow> FilePath" where
  "getFullPath env cfg filePath parentArg =
     (let parent = with_default (root cfg) parentArg
      in if path_isAbsolute env filePath then filePath
         else path_join env
                (if truthy (path_extname env parent) then path_dirname env parent else parent)
                filePath)"

text \<open>The \<^verbatim>\<open>options\<close> that \<^verbatim>\<open>res\<close> passes to \<^verbatim>\<open>require.resolve\<close>: \<^verbatim>\<open>{}\<close> or \<^verbatim>\<open>{ paths: [...] }\<close>.\<close>

definition res_options :: "node_env \<Rightarrow> config \<Rightarrow> FilePath \<Rightarrow> FilePath \<Rightarrow> string list option" where
  "res_options env cfg filePath parent =
     (if path_isAbsolute env filePath then None
      else (let dirName = (if truthy (path_extname env parent) then path_dirname env parent
                           else parent)
            in Some [getFullPath env cfg dirName None]))"

text \<open>The parts that \<^verbatim>\<open>res\<close> prints before \<^verbatim>\<open>process.exit(1)\<close>, after \<^verbatim>\<open>.filter(Boolean)\<close>.\<close>

definition res_message :: "node_env \<Rightarrow> config \<Rightarrow> FilePath \<Rightarrow> FilePath \<Rightarrow> string list" where
  "res_message env cfg filePath parent =
     filter truthy
       [''Couldn't resolve path to module'',
        printModulePath env cfg filePath,
        (if truthy parent then ''(required by '' @ printModulePath env cfg parent @ '')'' else parent)]"

definition res :: "node_env \<Rightarrow> config \<Rightarrow> FilePath \<Rightarrow> FilePath option \<Rightarrow> error + FilePath" where
  "res env cfg filePath parentArg =
     (let parent = with_default [] parentArg
      in case require_resolve env filePath (res_options env cfg filePath parent) of
           Some resolved \<Rightarrow> Inr resolved
         | None \<Rightarrow> Inl (Exit 1 (res_message env cfg filePath parent)))"

text \<open>
  The two probes of \<^verbatim>\<open>resolveWithExtension\<close>, each the body of a \<^verbatim>\<open>try\<close> up to its \<^verbatim>\<open>if\<close>: a
  directory listing that throws is caught and gives no match.
\<close>

definition findFileWithExtension :: "node_env \<Rightarrow> FilePath \<Rightarrow> string option" where
  "findFileWithExtension env fullPath =
     (let fileName = path_basename env fullPath;
          dirName = path_dirname env fullPath
      in case fs_readdirSync env dirName of
           None \<Rightarrow> None
         | Some files \<Rightarrow>
             find (\<lambda>file. case path_parse env file of (name, ext) \<Rightarrow> name = fileName \<and> truthy ext)
               files)"

definition findIndexFile :: "node_env \<Rightarrow> FilePath \<Rightarrow> string option" where
  "findIndexFile env fullPath =
     (case fs_readdirSync env fullPath of
        None \<Rightarrow> None
      | Some files \<Rightarrow>
          find (\<lambda>file. case path_parse env file of (name, ext) \<Rightarrow> name = ''index'' \<and> truthy ext)
            files)"

definition found :: "string option \<Rightarrow> bool" where
  "found r = (case r of None \<Rightarrow> False | Some file \<Rightarrow> truthy file)"

definition resolveWithExtension ::
    "node_env \<Rightarrow> config \<Rightarrow> FilePath \<Rightarrow> FilePath option \<Rightarrow> error + FilePath" where
  "resolveWithExtension env cfg filePath parentArg =
     (let fullPath = getFullPath env cfg filePath parentArg
      in if truthy (path_extname env filePath) then res env cfg filePath parentArg
         else if found (findFileWithExtension env fullPath)
         then res env cfg
                (normalizeFilePath env
                   (path_join env (path_dirname env fullPath)
                      (the (findFileWithExtension env fullPath))))
                parentArg
         else if found (findIndexFile env fullPath)
         then res env cfg
                (normalizeFilePath env (path_join env filePath (the (findIndexFile env fullPath))))
                parentArg
         else res env cfg filePath parentArg)"

text \<open>
  The path that \<^verbatim>\<open>resolveWithExtension\<close> hands to \<^verbatim>\<open>res\<close>, branch by branch: the path itself
  when it has an extension, the file found by the first probe, the index file found by the
  second, the path itself at the end.
\<close>

definition resolution_candidate :: "node_env \<Rightarrow> config \<Rightarrow> FilePath \<Rightarrow> FilePath option \<Rightarrow> FilePath" where
  "resolution_candidate env cfg filePath parentArg =
     (let fullPath = getFullPath env cfg filePath parentArg
      in if truthy (path_extname env filePath) then filePath
         else if found (findFileWithExtension env fullPath)
         then normalizeFilePath env
                (path_join env (path_dirname env fullPath)
                   (the (findFileWithExtension env fullPath)))
         else if found (findIndexFile env fullPath)
         then normalizeFilePath env (path_join env filePath (the (findIndexFile env fullPath)))
         else filePath)"

text \<open>
  The alias table is a plain object, and \<^verbatim>\<open>firstSegment in this.options.alias\<close> also holds for
  the names that every plain object inherits from \<^verbatim>\<open>Object.prototype\<close>. For such a name
  \<^verbatim>\<open>this.options.alias[firstSegment]\<close> is the inherited function (the prototype object, for
  \<^verbatim>\<open>__proto__\<close>), and \<^verbatim>\<open>parts.join\<close> turns it into the text below, as Node prints a native
  function. A configured key of the same name comes first.
\<close>

definition native_function :: "string \<Rightarrow> string" where
  "native_function name = ''function '' @ name @ ''() { [native code] }''"

definition Object_prototype :: "(string \<times> string) list" where
  "Object_prototype =
     [(''constructor'', native_function ''Object''),
      (''__defineGetter__'', native_function ''__defineGetter__''),
      (''__defineSetter__'', native_function ''__defineSetter__''),
      (''hasOwnProperty'', native_function ''hasOwnProperty''),
      (''__lookupGetter__'', native_function ''__lookupGetter__''),
      (''__lookupSetter__'', native_function ''__lookupSetter__''),
      (''isPrototypeOf'', native_function ''isPrototypeOf''),
      (''propertyIsEnumerable'', native_function ''propertyIsEnumerable''),
      (''toString'', native_function ''toString''),
      (''valueOf'', native_function ''valueOf''),
      (''__proto__'', ''[object Object]''),
      (''toLocaleString'', native_function ''toLocaleString'')]"

definition alias_lookup :: "config \<Rightarrow> string \<Rightarrow> string option" where
  "alias_lookup cfg firstSegment =
     (case map_of (aliases cfg) firstSegment of
        Some target \<Rightarrow> Some target
      | None \<Rightarrow> map_of Object_prototype firstSegment)"

definition replaceAlias :: "node_env \<Rightarrow> config \<Rightarrow> FilePath \<Rightarrow> FilePath" where
  "replaceAlias env cfg filePath =
     (case js_split (path_sep env) filePath of
        [] \<Rightarrow> filePath
      | firstSegment # rest \<Rightarrow>
          if firstSegment = ''.'' \<or> firstSegment = ''..'' then filePath
          else (case alias_lookup cfg firstSegment of
                  Some target \<Rightarrow>
                    path_join env (root cfg) (js_join (path_sep env) (target # rest))
                | None \<Rightarrow> filePath))"

text \<open>\<^verbatim>\<open>resolveFilePath\<close> of the directory-scan version, and of the entry-seeded version.\<close>

definition resolveFilePath_scan ::
    "node_env \<Rightarrow> config \<Rightarrow> FilePath \<Rightarrow> FilePath \<Rightarrow> error + FilePath" where
  "resolveFilePath_scan env cfg filePath parent =
     (if path_isAbsolute env filePath then Inr filePath
      else resolveWithExtension env cfg (replaceAlias env cfg filePath) (Some parent))"

definition resolveFilePath_entry ::
    "node_env \<Rightarrow> config \<Rightarrow> FilePath \<Rightarrow> FilePath option \<Rightarrow> error + FilePath" where
  "resolveFilePath_entry env cfg filePath parentArg =
     resolveWithExtension env cfg (replaceAlias env cfg filePath) parentArg"

section \<open>ModuleRegistry\<close>

text \<open>
  \<^verbatim>\<open>class ModuleData { hasDefaultExport = false; callers: FilePath[] = [] }\<close>. The registry is
  a JavaScript object used as a dictionary from path to record; \<^verbatim>\<open>for ... in\<close> enumerates its
  keys in the order of their first assignment, so it is an association list:
  \<^term>\<open>map_of\<close> reads a key, \<^term>\<open>AList.update\<close> assigns one, in place when the key is present
  and at the end when it is new. The keys are the paths of analyzed files, which end in a
  parseable extension, and what resolution returns, an absolute path or the name of a
  built-in module: none of them is a name that an object inherits (\<^verbatim>\<open>constructor\<close>,
  \<^verbatim>\<open>toString\<close>, ...), so a key is present exactly when it was assigned.
\<close>

record ModuleData =
  hasDefaultExport :: bool
  callers :: "FilePath list"

type_synonym registry = "(FilePath \<times> ModuleData) list"

text \<open>
  What \<^verbatim>\<open>execute\<close> prints after the drain loop: one line for every module of the registry that
  has both a default export and a caller, as the pair of the module and its callers.
\<close>

definition usages :: "registry \<Rightarrow> (FilePath \<times> FilePath list) list" where
  "usages reg =
     map (\<lambda>(m, d). (m, callers d)) (filter (\<lambda>(m, d). hasDefaultExport d \<and> callers d \<noteq> []) reg)"

section \<open>Analyzer, directory-scan version\<close>

text \<open>
  The caller reference of \<^verbatim>\<open>suspectModule\<close>:
  \<^verbatim>\<open>location ? [parent, location.line, location.column].join(':') : parent\<close>.
\<close>

definition callerRef :: "FilePath \<Rightarrow> (nat \<times> nat) option \<Rightarrow> string" where
  "callerRef parent location =
     (case location of
        Some (line, column) \<Rightarrow>
          js_join CHR '':'' [parent, string_of_nat line, string_of_nat column]
      | None \<Rightarrow> parent)"

definition suspectModule_scan ::
    "node_env \<Rightarrow> config \<Rightarrow> FilePath \<Rightarrow> FilePath \<Rightarrow> (nat \<times> nat) option \<Rightarrow> registry
     \<Rightarrow> error + registry" where
  "suspectModule_scan env cfg filePath parent location reg =
     (case resolveFilePath_scan env cfg filePath parent of
        Inl e \<Rightarrow> Inl e
      | Inr suspiciousModuleResolvedPath \<Rightarrow>
          (let fullParentPath = callerRef parent location
           in Inr (case map_of reg suspiciousModuleResolvedPath of
                     Some m \<Rightarrow>
                       AList.update suspiciousModuleResolvedPath
                         (m\<lparr>callers := callers m @ [fullParentPath]\<rparr>) reg
                   | None \<Rightarrow>
                       AList.update suspiciousModuleResolvedPath
                         \<lparr>hasDefaultExport = False, callers = [fullParentPath]\<rparr> reg)))"

text \<open>
  The \<^verbatim>\<open>ExportDefaultDeclaration\<close> visitor: \<^verbatim>\<open>this.analyzedModules[filePath].hasDefaultExport = true\<close>,
  a \<^verbatim>\<open>TypeError\<close> were the record absent.
\<close>

definition setDefaultExport_scan :: "FilePath \<Rightarrow> registry \<Rightarrow> error + registry" where
  "setDefaultExport_scan filePath reg =
     (case map_of reg filePath of
        None \<Rightarrow> Inl TypeError
      | Some m \<Rightarrow> Inr (AList.update filePath (m\<lparr>hasDefaultExport := True\<rparr>) reg))"

text \<open>
  The visitors. The argument is read by \<^verbatim>\<open>const { value: modulePath } = node.arguments[0]\<close>, which
  throws a \<^verbatim>\<open>TypeError\<close> when there is no argument; a \<^verbatim>\<open>value\<close> that is not a string reaches
  \<^verbatim>\<open>path.isAbsolute\<close> (here) or \<^verbatim>\<open>path.extname\<close> (entry-seeded version), which throw a
  \<^verbatim>\<open>TypeError\<close> on anything but a string.
\<close>

definition visit_scan ::
    "node_env \<Rightarrow> config \<Rightarrow> FilePath \<Rightarrow> node \<Rightarrow> registry \<Rightarrow> error + registry" where
  "visit_scan env cfg filePath nd reg =
     (case nd of
        CallExpression node container \<Rightarrow>
          (let isRequireStatement = (callee_name node = Some ''require'');
               isPlainVarDeclaration = (id_type container = Some ''Identifier'')
           in if \<not> isRequireStatement \<or> \<not> isPlainVarDeclaration then Inr reg
              else if (case property_name container of None \<Rightarrow> False | Some p \<Rightarrow> truthy p)
              then Inr reg
              else (case arguments node of
                      [] \<Rightarrow> Inl TypeError
                    | a # _ \<Rightarrow>
                        (case argument_value a of
                           JString modulePath \<Rightarrow>
                             suspectModule_scan env cfg modulePath filePath (loc_start node) reg
                         | _ \<Rightarrow> Inl TypeError)))
      | ExportDefaultDeclaration \<Rightarrow> setDefaultExport_scan filePath reg
      | _ \<Rightarrow> Inr reg)"

fun traverse_scan ::
    "node_env \<Rightarrow> config \<Rightarrow> FilePath \<Rightarrow> node list \<Rightarrow> registry \<Rightarrow> error + registry" where
  "traverse_scan env cfg filePath [] reg = Inr reg"
| "traverse_scan env cfg filePath (nd # nds) reg =
     (case visit_scan env cfg filePath nd reg of
        Inl e \<Rightarrow> Inl e
      | Inr reg' \<Rightarrow> traverse_scan env cfg filePath nds reg')"

definition analyze_scan ::
    "node_env \<Rightarrow> config \<Rightarrow> FilePath \<Rightarrow> registry \<Rightarrow> error + registry" where
  "analyze_scan env cfg filePath reg =
     (if map_of reg filePath \<noteq> None then Inr reg
      else (let reg1 = AList.update filePath \<lparr>hasDefaultExport = False, callers = []\<rparr> reg
            in case fs_readFileSync env filePath of
                 None \<Rightarrow> Inl (IOError filePath)
               | Some source \<Rightarrow>
                   (case babel_parse env source of
                      None \<Rightarrow> Inl (ParseError filePath)
                    | Some ast \<Rightarrow> traverse_scan env cfg filePath ast reg1)))"

text \<open>
  The drain loop of \<^verbatim>\<open>execute\<close>. In this version \<^verbatim>\<open>analyze\<close> never pushes, so the loop runs
  once over the files that the constructor's directory scan queued, in queue order.
\<close>

fun execute_scan ::
    "node_env \<Rightarrow> config \<Rightarrow> FilePath list \<Rightarrow> registry \<Rightarrow> error + registry" where
  "execute_scan env cfg [] reg = Inr reg"
| "execute_scan env cfg (filePath # analyzeQueue) reg =
     (case analyze_scan env cfg filePath reg of
        Inl e \<Rightarrow> Inl e
      | Inr reg' \<Rightarrow> execute_scan env cfg analyzeQueue reg')"

definition report_scan ::
    "node_env \<Rightarrow> config \<Rightarrow> FilePath list \<Rightarrow> error + (FilePath \<times> FilePath list) list" where
  "report_scan env cfg analyzeQueue = map_sum id usages (execute_scan env cfg analyzeQueue [])"

text \<open>The record that a run leaves for one module.\<close>

definition record_scan ::
    "node_env \<Rightarrow> config \<Rightarrow> FilePath list \<Rightarrow> FilePath \<Rightarrow> error + ModuleData option" where
  "record_scan env cfg analyzeQueue modulePath =
     map_sum id (\<lambda>reg. map_of reg modulePath) (execute_scan env cfg analyzeQueue [])"

section \<open>Analyzer, entry-seeded version\<close>

record QueueItem =
  item_filePath :: FilePath
  item_parent :: "FilePath option"

text \<open>
  The fields of the class that a run changes. The work queue is held as the list that the
  linked-list queue refines: \<^term>\<open>fifo_enqueue\<close> for \<^verbatim>\<open>push\<close>, \<^term>\<open>fifo_dequeue\<close> for \<^verbatim>\<open>pop\<close>.
\<close>

record analyzer =
  queue :: "QueueItem list"
  analyzedModules :: "FilePath set"
  suspiciousModules :: registry

definition markSuspiciousModule :: "FilePath \<Rightarrow> registry \<Rightarrow> registry" where
  "markSuspiciousModule filePath reg =
     (case map_of reg filePath of
        Some m \<Rightarrow> AList.update filePath (m\<lparr>hasDefaultExport := True\<rparr>) reg
      | None \<Rightarrow> reg)"

definition suspectModule_entry ::
    "node_env \<Rightarrow> config \<Rightarrow> FilePath \<Rightarrow> FilePath \<Rightarrow> registry \<Rightarrow> error + registry" where
  "suspectModule_entry env cfg filePath parent reg =
     (case resolveFilePath_entry env cfg filePath (Some parent) of
        Inl e \<Rightarrow> Inl e
      | Inr suspiciousModuleResolvedPath \<Rightarrow>
          Inr (case map_of reg suspiciousModuleResolvedPath of
                 Some m \<Rightarrow>
                   AList.update suspiciousModuleResolvedPath (m\<lparr>callers := callers m @ [parent]\<rparr>)
                     reg
               | None \<Rightarrow>
                   AList.update suspiciousModuleResolvedPath
                     \<lparr>hasDefaultExport = False, callers = [parent]\<rparr> reg))"

definition safePushToQueue :: "node_env \<Rightarrow> QueueItem \<Rightarrow> analyzer \<Rightarrow> analyzer" where
  "safePushToQueue env queueItem st =
     (let extension = path_extname env (item_filePath queueItem)
      in if (truthy extension \<and> extension \<notin> PARSEABLE_EXTENSIONS)
            \<or> (case item_parent queueItem of
                  None \<Rightarrow> False
                | Some p \<Rightarrow> js_includes p ''node_modules'')
         then st
         else st\<lparr>queue := fifo_enqueue queueItem (queue st)\<rparr>)"

definition visit_entry ::
    "node_env \<Rightarrow> config \<Rightarrow> FilePath \<Rightarrow> node \<Rightarrow> analyzer \<Rightarrow> error + analyzer" where
  "visit_entry env cfg resolvedPath nd st =
     (case nd of
        ImportDeclaration source \<Rightarrow>
          Inr (safePushToQueue env \<lparr>item_filePath = source, item_parent = Some resolvedPath\<rparr> st)
      | CallExpression node container \<Rightarrow>
          (let isRequireStatement = (callee_name node = Some ''require'');
               isPlainVarDeclaration = (id_type container = Some ''Identifier'')
           in if \<not> isRequireStatement \<or> \<not> isPlainVarDeclaration then Inr st
              else if (case property_name container of None \<Rightarrow> False | Some p \<Rightarrow> truthy p)
              then Inr st
              else (case arguments node of
                      [] \<Rightarrow> Inl TypeError
                    | a # _ \<Rightarrow>
                        (case argument_value a of
                           JString modulePath \<Rightarrow>
                             (let st1 = safePushToQueue env
                                    \<lparr>item_filePath = modulePath, item_parent = Some resolvedPath\<rparr> st
                              in case suspectModule_entry env cfg modulePath resolvedPath
                                        (suspiciousModules st1) of
                                   Inl e \<Rightarrow> Inl e
                                 | Inr reg \<Rightarrow> Inr (st1\<lparr>suspiciousModules := reg\<rparr>))
                         | _ \<Rightarrow> Inl TypeError)))
      | ExportDefaultDeclaration \<Rightarrow>
          Inr (st\<lparr>suspiciousModules := markSuspiciousModule resolvedPath (suspiciousModules st)\<rparr>)
      | OtherNode \<Rightarrow> Inr st)"

fun traverse_entry ::
    "node_env \<Rightarrow> config \<Rightarrow> FilePath \<Rightarrow> node list \<Rightarrow> analyzer \<Rightarrow> error + analyzer" where
  "traverse_entry env cfg resolvedPath [] st = Inr st"
| "traverse_entry env cfg resolvedPath (nd # nds) st =
     (case visit_entry env cfg resolvedPath nd st of
        Inl e \<Rightarrow> Inl e
      | Inr st' \<Rightarrow> traverse_entry env cfg resolvedPath nds st')"

definition analyze_entry ::
    "node_env \<Rightarrow> config \<Rightarrow> QueueItem \<Rightarrow> analyzer \<Rightarrow> error + analyzer" where
  "analyze_entry env cfg queueItem st =
     (case resolveFilePath_entry env cfg (item_filePath queueItem) (item_parent queueItem) of
        Inl e \<Rightarrow> Inl e
      | Inr resolvedPath \<Rightarrow>
          if resolvedPath \<in> analyzedModules st
             \<or> path_extname env resolvedPath \<notin> PARSEABLE_EXTENSIONS
          then Inr st
          else (case fs_readFileSync env resolvedPath of
                  None \<Rightarrow> Inl (IOError resolvedPath)
                | Some source \<Rightarrow>
                    (case babel_parse env source of
                       None \<Rightarrow> Inl (ParseError resolvedPath)
                     | Some ast \<Rightarrow>
                         (case traverse_entry env cfg resolvedPath ast st of
                            Inl e \<Rightarrow> Inl e
                          | Inr st' \<Rightarrow>
                              Inr (st'\<lparr>analyzedModules :=
                                         insert resolvedPath (analyzedModules st')\<rparr>)))))"

text \<open>
  The drain loop of \<^verbatim>\<open>execute\<close>: \<^verbatim>\<open>while (this.queue.hasItems) this.analyze(this.queue.pop())\<close>.
  Here \<^verbatim>\<open>analyze\<close> pushes, so the loop is bounded by fuel: \<open>None\<close> is a loop that has not
  finished within the given number of iterations.
\<close>

fun execute_entry :: "nat \<Rightarrow> node_env \<Rightarrow> config \<Rightarrow> analyzer \<Rightarrow> (error + analyzer) option" where
  "execute_entry fuel env cfg st =
     (case fifo_dequeue (queue st) of
        (None, _) \<Rightarrow> Some (Inr st)
      | (Some queueItem, rest) \<Rightarrow>
          (case fuel of
             0 \<Rightarrow> None
           | Suc fuel' \<Rightarrow>
               (case analyze_entry env cfg queueItem (st\<lparr>queue := rest\<rparr>) of
                  Inl e \<Rightarrow> Some (Inl e)
                | Inr st' \<Rightarrow> execute_entry fuel' env cfg st')))"

text \<open>The constructor: the entries are pushed, then \<^verbatim>\<open>validate\<close> looks at the root alone.\<close>

definition validate_entry :: "node_env \<Rightarrow> config \<Rightarrow> error option" where
  "validate_entry env cfg =
     (if \<not> fs_existsSync env (root cfg)
      then Some (Exit 1 [''Couldn't find root directory'', root cfg])
      else None)"

definition constructor_entry :: "node_env \<Rightarrow> config \<Rightarrow> FilePath list \<Rightarrow> error + analyzer" where
  "constructor_entry env cfg entries =
     (let st = \<lparr>queue = map (\<lambda>entry. \<lparr>item_filePath = entry, item_parent = None\<rparr>) entries,
                analyzedModules = {}, suspiciousModules = []\<rparr>
      in case validate_entry env cfg of
           Some e \<Rightarrow> Inl e
         | None \<Rightarrow> Inr st)"

text \<open>\<^verbatim>\<open>new Analyzer(entries, options).execute()\<close>, as the command line runs it.\<close>

definition run_entry ::
    "nat \<Rightarrow> node_env \<Rightarrow> config \<Rightarrow> FilePath list \<Rightarrow> (error + analyzer) option" where
  "run_entry fuel env cfg entries =
     (case constructor_entry env cfg entries of
        Inl e \<Rightarrow> Some (Inl e)
      | Inr st \<Rightarrow> execute_entry fuel env cfg st)"

definition report_entry ::
    "nat \<Rightarrow> node_env \<Rightarrow> config \<Rightarrow> FilePath list
     \<Rightarrow> (error + (FilePath \<times> FilePath list) list) option" where
  "report_entry fuel env cfg entries =
     map_option (map_sum id (\<lambda>st. usages (suspiciousModules st))) (run_entry fuel env cfg entries)"

definition record_entry ::
    "nat \<Rightarrow> node_env \<Rightarrow> config \<Rightarrow> FilePath list \<Rightarrow> FilePath
     \<Rightarrow> (error + ModuleData option) option" where
  "record_entry fuel env cfg entries modulePath =
     map_option (map_sum id (\<lambda>st. map_of (suspiciousModules st) modulePath))
       (run_entry fuel env cfg entries)"

section \<open>A sample environment\<close>

text \<open>
  To run the model, an environment is needed. The path functions below follow the documented
  behaviour of Node's \<^verbatim>\<open>path\<close> module on POSIX for paths without repeated separators; the file
  system is a table from absolute file path to content; \<^verbatim>\<open>require.resolve\<close> is cut down to
  what the samples use (a file, the file with \<^verbatim>\<open>.js\<close> appended, the \<^verbatim>\<open>index.js\<close> of a
  directory, looked up from the search path or in its \<^verbatim>\<open>node_modules\<close>); the parser is a
  table from source text to the nodes that \<^verbatim>\<open>traverse\<close> visits, in visiting order. The general
  theorems do not depend on any of this: they hold for every environment.
\<close>

definition posix_isAbsolute :: "string \<Rightarrow> bool" where
  "posix_isAbsolute p = (case p of [] \<Rightarrow> False | c # _ \<Rightarrow> c = CHR ''/'')"

definition posix_basename :: "string \<Rightarrow> string" where
  "posix_basename p =
     (case rev (filter truthy (js_split CHR ''/'' p)) of [] \<Rightarrow> [] | b # _ \<Rightarrow> b)"

definition posix_dirname :: "string \<Rightarrow> string" where
  "posix_dirname p =
     (let q = rev (dropWhile (\<lambda>c. c = CHR ''/'') (rev p))
      in if CHR ''/'' \<notin> set q then (if posix_isAbsolute p then ''/'' else ''.'')
         else (let d = rev (tl (dropWhile (\<lambda>c. c \<noteq> CHR ''/'') (rev q)))
               in if d = [] then ''/'' else d))"

definition posix_extname :: "string \<Rightarrow> string" where
  "posix_extname p =
     (let b = posix_basename p;
          e = rev (takeWhile (\<lambda>c. c \<noteq> CHR ''.'') (rev b))
      in if CHR ''.'' \<notin> set b \<or> b = ''..'' \<or> Suc (length e) = length b then []
         else CHR ''.'' # e)"

definition posix_parse :: "string \<Rightarrow> string \<times> string" where
  "posix_parse p =
     (let b = posix_basename p; e = posix_extname p in (take (length b - length e) b, e))"

fun normalize_segments :: "bool \<Rightarrow> string list \<Rightarrow> string list \<Rightarrow> string list" where
  "normalize_segments aboveRoot [] acc = rev acc"
| "normalize_segments aboveRoot (s # ss) acc =
     (if s = [] \<or> s = ''.'' then normalize_segments aboveRoot ss acc
      else if s = ''..''
      then (case acc of
              [] \<Rightarrow> normalize_segments aboveRoot ss (if aboveRoot then [s] else [])
            | a # as \<Rightarrow>
                if a = ''..'' then normalize_segments aboveRoot ss (s # acc)
                else normalize_segments aboveRoot ss as)
      else normalize_segments aboveRoot ss (s # acc))"

definition posix_normalize :: "string \<Rightarrow> string" where
  "posix_normalize p =
     (if p = [] then ''.''
      else (let isAbs = posix_isAbsolute p;
                trailing = (last p = CHR ''/'');
                body = js_join CHR ''/'' (normalize_segments (\<not> isAbs) (js_split CHR ''/'' p) [])
            in if body = [] then (if isAbs then ''/'' else if trailing then ''./'' else ''.'')
               else (if isAbs then ''/'' else []) @ body @ (if trailing then ''/'' else [])))"

definition posix_join :: "string \<Rightarrow> string \<Rightarrow> string" where
  "posix_join a b =
     (case filter truthy [a, b] of
        [] \<Rightarrow> ''.''
      | parts \<Rightarrow> posix_normalize (js_join CHR ''/'' parts))"

type_synonym file_table = "(FilePath \<times> string) list"

definition table_readdir :: "file_table \<Rightarrow> string \<Rightarrow> string list option" where
  "table_readdir files dir =
     (let below = filter (\<lambda>f. startsWith f (dir @ ''/'')) (map fst files);
          names = remdups (map (\<lambda>f. takeWhile (\<lambda>c. c \<noteq> CHR ''/'') (drop (Suc (length dir)) f)) below)
      in if names = [] then None else Some names)"

definition table_exists :: "file_table \<Rightarrow> string \<Rightarrow> bool" where
  "table_exists files p = (map_of files p \<noteq> None \<or> table_readdir files p \<noteq> None)"

definition table_resolve :: "file_table \<Rightarrow> string \<Rightarrow> string list option \<Rightarrow> string option" where
  "table_resolve files request options =
     (let bases =
            (if posix_isAbsolute request then [request]
             else (case options of
                     Some (dir # _) \<Rightarrow>
                       if startsWith request ''./'' \<or> startsWith request ''../''
                       then [posix_join dir request]
                       else [posix_join (posix_join dir ''node_modules'') request]
                   | _ \<Rightarrow> []));
          candidates = concat (map (\<lambda>b. [b, b @ ''.js'', posix_join b ''index.js'']) bases)
      in find (\<lambda>c. map_of files c \<noteq> None) candidates)"

definition table_env :: "file_table \<Rightarrow> (string \<times> node list) list \<Rightarrow> node_env" where
  "table_env files parses =
     \<lparr>path_sep = CHR ''/'',
      path_isAbsolute = posix_isAbsolute,
      path_extname = posix_extname,
      path_basename = posix_basename,
      path_dirname = posix_dirname,
      path_join = posix_join,
      path_parse = posix_parse,
      fs_existsSync = table_exists files,
      fs_readdirSync = table_readdir files,
      fs_readFileSync = map_of files,
      require_resolve = table_resolve files,
      babel_parse = map_of parses\<rparr>"

text \<open>
  The sample project, rooted at \<^verbatim>\<open>/p\<close>: \<^verbatim>\<open>a.js\<close> and \<^verbatim>\<open>b.js\<close> require each other and both
  export a default; \<^verbatim>\<open>c.js\<close> requires \<^verbatim>\<open>d.js\<close>, which exports a default; \<^verbatim>\<open>e.js\<close> requires a
  computed specifier; \<^verbatim>\<open>f.js\<close> imports the installed package \<^verbatim>\<open>m\<close>; \<^verbatim>\<open>g.js\<close> requires \<^verbatim>\<open>d.js\<close>
  and selects \<^verbatim>\<open>.default\<close>; \<^verbatim>\<open>h.js\<close> requires a file that does not exist; \<^verbatim>\<open>i.js\<close> imports a JSON
  file that does not exist; \<^verbatim>\<open>j.js\<close> requires an absolute path that does not exist; \<^verbatim>\<open>k.js\<close>
  imports a file of the installed package \<^verbatim>\<open>n\<close> whose extension is not parseable.
\<close>

definition src_a :: string where "src_a = ''const b = require('./b'); export default 1;''"
definition src_b :: string where "src_b = ''const a = require('./a'); export default 2;''"
definition src_c :: string where "src_c = ''const d = require('./d');''"
definition src_d :: string where "src_d = ''export default 4;''"
definition src_e :: string where "src_e = ''const m = require(name);''"
definition src_f :: string where "src_f = ''import m from 'm';''"
definition src_g :: string where "src_g = ''const s = require('./d').default;''"
definition src_h :: string where "src_h = ''const x = require('./missing');''"
definition src_i :: string where "src_i = ''import j from './missing.json';''"
definition src_j :: string where "src_j = ''const x = require('/nowhere/x');''"
definition src_k :: string where "src_k = ''import n from './node_modules/n/lib';''"
definition src_m :: string where "src_m = ''export default 0;''"
definition src_n :: string where "src_n = ''module.exports = 0;''"

definition plain_require :: "string \<Rightarrow> node" where
  "plain_require specifier =
     CallExpression (require_call [StringLiteral specifier] (Some (1, 10)))
       (VariableDeclarator ''Identifier'')"

definition sample_files :: file_table where
  "sample_files =
     [(''/p/a.js'', src_a), (''/p/b.js'', src_b), (''/p/c.js'', src_c), (''/p/d.js'', src_d),
      (''/p/e.js'', src_e), (''/p/f.js'', src_f), (''/p/g.js'', src_g), (''/p/h.js'', src_h),
      (''/p/i.js'', src_i), (''/p/j.js'', src_j), (''/p/k.js'', src_k),
      (''/p/node_modules/m/index.js'', src_m), (''/p/node_modules/n/lib.cjs'', src_n)]"

definition sample_parses :: "(string \<times> node list) list" where
  "sample_parses =
     [(src_a, [plain_require ''./b'', ExportDefaultDeclaration]),
      (src_b, [plain_require ''./a'', ExportDefaultDeclaration]),
      (src_c, [plain_require ''./d'']),
      (src_d, [ExportDefaultDeclaration]),
      (src_e, [CallExpression (require_call [Identifier ''name''] (Some (1, 10)))
                 (VariableDeclarator ''Identifier'')]),
      (src_f, [ImportDeclaration ''m'']),
      (src_g, [OtherNode,
               CallExpression (require_call [StringLiteral ''./d''] (Some (1, 10)))
                 (MemberExpression ''default'')]),
      (src_h, [plain_require ''./missing'']),
      (src_i, [ImportDeclaration ''./missing.json'']),
      (src_j, [plain_require ''/nowhere/x'']),
      (src_k, [ImportDeclaration ''./node_modules/n/lib'']),
      (src_m, [ExportDefaultDeclaration]),
      (src_n, [OtherNode])]"

definition sample_env :: node_env where
  "sample_env = table_env sample_files sample_parses"

definition sample_cfg :: config where
  "sample_cfg = \<lparr>root = ''/p'', aliases = []\<rparr>"

section \<open>Properties\<close>

subsection \<open>The queue refines the list\<close>

lemma chain_bound: "chain h p as \<Longrightarrow> a \<in> set as \<Longrightarrow> a < length h"
  by (induction as arbitrary: p) auto

lemma chain_alloc: "chain h p as \<Longrightarrow> chain (h @ [n]) p as"
  by (induction as arbitrary: p) (auto simp: nth_append)

lemma chain_link:
  "chain h p (as @ [l]) \<Longrightarrow> distinct (as @ [l]) \<Longrightarrow> n < length h \<Longrightarrow> n \<notin> set (as @ [l]) \<Longrightarrow>
   node_next (h ! n) = None \<Longrightarrow>
   chain (h[l := (h ! l)\<lparr>node_next := Some n\<rparr>]) p (as @ [l, n])"
  by (induction as arbitrary: p) auto

lemma queue_inv_new: "queue_inv new_queue []"
  by (simp add: queue_inv_def new_queue_def)

lemma queue_inv_push:
  assumes "queue_inv q as"
  shows "queue_inv (push item q) (as @ [length (heap q)]) \<and>
         pending (push item q) (as @ [length (heap q)]) = pending q as @ [item]"
proof (cases as rule: rev_cases)
  case Nil
  with assms have "q_root q = None" by (simp add: queue_inv_def)
  with Nil show ?thesis
    by (simp add: queue_inv_def push_def pending_def Let_def)
next
  case (snoc bs l)
  let ?n = "length (heap q)"
  let ?h = "heap q @ [\<lparr>node_value = item, node_next = None\<rparr>]"
  from assms snoc have ch: "chain (heap q) (q_root q) (bs @ [l])"
    and dist: "distinct (bs @ [l])" and lst: "q_last q = Some l"
    by (simp_all add: queue_inv_def)
  from ch have root: "q_root q \<noteq> None" by (cases bs) auto
  from ch have bound: "\<And>a. a \<in> set (bs @ [l]) \<Longrightarrow> a < ?n" by (rule chain_bound)
  then have fresh: "?n \<notin> set (bs @ [l])" by blast
  have "chain ?h (q_root q) (bs @ [l])" using ch by (rule chain_alloc)
  then have ch': "chain (?h[l := (?h ! l)\<lparr>node_next := Some ?n\<rparr>]) (q_root q) (bs @ [l, ?n])"
    by (rule chain_link[OF _ dist _ fresh]) simp_all
  have pushq: "push item q =
      q\<lparr>heap := ?h[l := (?h ! l)\<lparr>node_next := Some ?n\<rparr>], q_last := Some ?n\<rparr>"
    using root lst by (auto simp: push_def Let_def)
  have vals: "node_value ((?h[l := (?h ! l)\<lparr>node_next := Some ?n\<rparr>]) ! a) = node_value (heap q ! a)"
    if "a \<in> set (bs @ [l])" for a
    using bound[OF that] by (cases "a = l") (simp_all add: nth_append)
  have newv: "node_value ((?h[l := (?h ! l)\<lparr>node_next := Some ?n\<rparr>]) ! ?n) = item"
    using fresh by simp
  show ?thesis
    unfolding pushq queue_inv_def pending_def snoc
    using ch' dist fresh vals newv by (simp add: snoc)
qed

lemma queue_inv_pop_empty:
  "queue_inv q [] \<Longrightarrow> pop q = (None, q) \<and> \<not> hasItems q"
  by (simp add: queue_inv_def pop_def hasItems_def)

lemma queue_inv_pop:
  assumes "queue_inv q (a # as)"
  shows "fst (pop q) = Some (node_value (heap q ! a)) \<and> queue_inv (snd (pop q)) as \<and>
         pending (snd (pop q)) as = pending q as \<and> hasItems q"
  using assms by (cases as) (auto simp: queue_inv_def pop_def hasItems_def pending_def)

lemma run_queue_refines:
  "queue_inv q as \<Longrightarrow> run_queue q ops = run_fifo (pending q as) ops"
proof (induction ops arbitrary: q as)
  case Nil
  show ?case by simp
next
  case (Cons op ops)
  show ?case
  proof (cases op)
    case (Push item)
    from queue_inv_push[OF Cons.prems, of item]
    have inv: "queue_inv (push item q) (as @ [length (heap q)])"
      and pend: "pending (push item q) (as @ [length (heap q)]) = pending q as @ [item]"
      by simp_all
    from Cons.IH[OF inv] pend show ?thesis
      by (simp add: Push fifo_enqueue_def)
  next
    case Pop
    show ?thesis
    proof (cases as)
      case Nil
      with Cons.prems have "pop q = (None, q)" by (simp add: queue_inv_pop_empty)
      with Cons.IH[OF Cons.prems] Nil show ?thesis
        by (simp add: Pop fifo_dequeue_def pending_def)
    next
      case (Cons a bs)
      from queue_inv_pop[OF Cons.prems[unfolded Cons]]
      have r: "fst (pop q) = Some (node_value (heap q ! a))"
        and inv: "queue_inv (snd (pop q)) bs"
        and pend: "pending (snd (pop q)) bs = pending q bs"
        by simp_all
      have deq: "fifo_dequeue (pending q as) = (Some (node_value (heap q ! a)), pending q bs)"
        by (simp add: Cons fifo_dequeue_def pending_def)
      obtain r' q' where p: "pop q = (r', q')" by (cases "pop q")
      from Cons.IH[OF inv] r pend show ?thesis
        by (simp add: Pop deq p)
    qed
  next
    case HasItems
    have "hasItems q = fifo_hasItems (pending q as)"
    proof (cases as)
      case Nil
      with Cons.prems show ?thesis
        by (simp add: queue_inv_pop_empty fifo_hasItems_def pending_def)
    next
      case (Cons a bs)
      with queue_inv_pop[OF Cons.prems[unfolded Cons]] show ?thesis
        by (simp add: fifo_hasItems_def pending_def)
    qed
    with Cons.IH[OF Cons.prems] show ?thesis
      by (simp add: HasItems)
  qed
qed

text \<open>
  Claim C8. For every sequence of pushes, pops and \<open>hasItems\<close> reads, started on a fresh
  queue, the linked-list queue and the reference list FIFO produce the same observations:
  pops come out in push order, a pop on an empty queue gives the empty marker, and
  \<open>hasItems\<close> holds exactly when a pushed item is still pending. Sequences that drain the
  queue and push again are among them (the stale \<open>last\<close> reference left by \<open>pop\<close> is
  never followed, since \<open>push\<close> tests \<open>root\<close> first).
\<close>

theorem C8_queue_fifo: "run_queue new_queue ops = run_fifo [] ops"
  using run_queue_refines[OF queue_inv_new, of ops] by (simp add: pending_def)

subsection \<open>The visitors at the two call sites\<close>

lemma map_of_update_same: "map_of (AList.update k v al) k = Some v"
  by (simp add: update_conv')

lemma suspectModule_scan_records:
  assumes "resolveFilePath_scan env cfg m file = Inr p"
  shows "\<exists>reg'. suspectModule_scan env cfg m file loc reg = Inr reg' \<and>
           (\<exists>d. map_of reg' p = Some d \<and> callerRef file loc \<in> set (callers d))"
  using assms by (simp add: suspectModule_scan_def Let_def map_of_update_same split: option.split)


lemma safePushToQueue_suspiciousModules [simp]:
  "suspiciousModules (safePushToQueue env queueItem st) = suspiciousModules st"
  by (simp add: safePushToQueue_def Let_def)



lemma visit_scan_plain:
  "visit_scan env cfg file
     (CallExpression (require_call (StringLiteral m # args) loc) (VariableDeclarator ''Identifier'')) reg =
   suspectModule_scan env cfg m file loc reg"
  by (simp add: visit_scan_def VariableDeclarator_def require_call_def)

lemma visit_entry_plain:
  "visit_entry env cfg file
     (CallExpression (require_call (StringLiteral m # args) loc) (VariableDeclarator ''Identifier'')) st =
   (case suspectModule_entry env cfg m file (suspiciousModules st) of
      Inl e \<Rightarrow> Inl e
    | Inr reg \<Rightarrow>
        Inr ((safePushToQueue env \<lparr>item_filePath = m, item_parent = Some file\<rparr> st)
               \<lparr>suspiciousModules := reg\<rparr>))"
  by (simp add: visit_entry_def VariableDeclarator_def require_call_def Let_def)





subsection \<open>Runs on the sample project\<close>

lemma scan_d_then_c:
  "record_scan sample_env sample_cfg [''/p/d.js'', ''/p/c.js''] ''/p/d.js'' =
     Inr (Some \<lparr>hasDefaultExport = True, callers = [''/p/c.js:1:10'']\<rparr>)"
  by code_simp

lemma scan_c_then_d:
  "record_scan sample_env sample_cfg [''/p/c.js'', ''/p/d.js''] ''/p/d.js'' =
     Inr (Some \<lparr>hasDefaultExport = False, callers = [''/p/c.js:1:10'']\<rparr>)"
  by code_simp

lemma scan_c_then_d_report:
  "report_scan sample_env sample_cfg [''/p/c.js'', ''/p/d.js''] = Inr []"
  by code_simp

lemma scan_d_then_c_report:
  "report_scan sample_env sample_cfg [''/p/d.js'', ''/p/c.js''] =
     Inr [(''/p/d.js'', [''/p/c.js:1:10''])]"
  by code_simp

lemma entry_c_then_d:
  "record_entry 3 sample_env sample_cfg [''/p/c.js'', ''/p/d.js''] ''/p/d.js'' =
     Some (Inr (Some \<lparr>hasDefaultExport = True, callers = [''/p/c.js'']\<rparr>))"
  by code_simp

lemma entry_d_then_c:
  "record_entry 3 sample_env sample_cfg [''/p/d.js'', ''/p/c.js''] ''/p/d.js'' =
     Some (Inr (Some \<lparr>hasDefaultExport = False, callers = [''/p/c.js'']\<rparr>))"
  by code_simp

lemma entry_c_then_d_report:
  "report_entry 3 sample_env sample_cfg [''/p/c.js'', ''/p/d.js''] =
     Some (Inr [(''/p/d.js'', [''/p/c.js''])])"
  by code_simp

lemma entry_d_then_c_report:
  "report_entry 3 sample_env sample_cfg [''/p/d.js'', ''/p/c.js''] = Some (Inr [])"
  by code_simp

text \<open>
  Claim C1, on the code. \<^verbatim>\<open>c.js\<close> requires \<^verbatim>\<open>d.js\<close> without \<^verbatim>\<open>.default\<close>, and \<^verbatim>\<open>d.js\<close> has a
  default export. In the directory-scan version the record of \<^verbatim>\<open>d.js\<close> ends with the flag set
  when \<^verbatim>\<open>d.js\<close> is visited before the require is recorded, and with the flag unset when the
  require is recorded first (\<^verbatim>\<open>analyze\<close> then returns at its guard and never parses \<^verbatim>\<open>d.js\<close>). In
  the entry-seeded version it is the other way round (\<^verbatim>\<open>markSuspiciousModule\<close> finds no record
  when \<^verbatim>\<open>d.js\<close> is visited first). In each version one of the two orders reports nothing.
\<close>

theorem C1_discovery_order_changes_record:
  "record_scan sample_env sample_cfg [''/p/d.js'', ''/p/c.js''] ''/p/d.js'' =
     Inr (Some \<lparr>hasDefaultExport = True, callers = [''/p/c.js:1:10'']\<rparr>)
   \<and> record_scan sample_env sample_cfg [''/p/c.js'', ''/p/d.js''] ''/p/d.js'' =
     Inr (Some \<lparr>hasDefaultExport = False, callers = [''/p/c.js:1:10'']\<rparr>)
   \<and> report_scan sample_env sample_cfg [''/p/d.js'', ''/p/c.js''] =
     Inr [(''/p/d.js'', [''/p/c.js:1:10''])]
   \<and> report_scan sample_env sample_cfg [''/p/c.js'', ''/p/d.js''] = Inr []
   \<and> record_entry 3 sample_env sample_cfg [''/p/c.js'', ''/p/d.js''] ''/p/d.js'' =
     Some (Inr (Some \<lparr>hasDefaultExport = True, callers = [''/p/c.js'']\<rparr>))
   \<and> record_entry 3 sample_env sample_cfg [''/p/d.js'', ''/p/c.js''] ''/p/d.js'' =
     Some (Inr (Some \<lparr>hasDefaultExport = False, callers = [''/p/c.js'']\<rparr>))
   \<and> report_entry 3 sample_env sample_cfg [''/p/c.js'', ''/p/d.js''] =
     Some (Inr [(''/p/d.js'', [''/p/c.js''])])
   \<and> report_entry 3 sample_env sample_cfg [''/p/d.js'', ''/p/c.js''] = Some (Inr [])"
  by (intro conjI scan_d_then_c scan_c_then_d scan_d_then_c_report scan_c_then_d_report
        entry_c_then_d entry_d_then_c entry_c_then_d_report entry_d_then_c_report)

lemma markSuspiciousModule_absent:
  "map_of reg filePath = None \<Longrightarrow> markSuspiciousModule filePath reg = reg"
  by (simp add: markSuspiciousModule_def)

lemma markSuspiciousModule_idem:
  "markSuspiciousModule filePath (markSuspiciousModule filePath reg) =
     markSuspiciousModule filePath reg"
  by (cases "map_of reg filePath") (simp_all add: markSuspiciousModule_def map_of_update_same)

lemma entry_d_alone:
  "record_entry 1 sample_env sample_cfg [''/p/d.js''] ''/p/d.js'' = Some (Inr None)"
  by code_simp

text \<open>
  Claim C3, on the code. \<^verbatim>\<open>markSuspiciousModule\<close> of the entry-seeded version does nothing for a
  path that has no record: the record is not created and the flag is not kept. A run over
  \<^verbatim>\<open>d.js\<close>, which has a default export, leaves no record of it; when \<^verbatim>\<open>c.js\<close>, which requires
  it, is analyzed afterwards, the record is created with the flag unset. The operation is
  idempotent.
\<close>

theorem C3_markSuspiciousModule_without_record:
  "markSuspiciousModule ''/p/d.js'' [] = []
   \<and> record_entry 1 sample_env sample_cfg [''/p/d.js''] ''/p/d.js'' = Some (Inr None)
   \<and> record_entry 3 sample_env sample_cfg [''/p/d.js'', ''/p/c.js''] ''/p/d.js'' =
     Some (Inr (Some \<lparr>hasDefaultExport = False, callers = [''/p/c.js'']\<rparr>))
   \<and> markSuspiciousModule filePath (markSuspiciousModule filePath reg) =
     markSuspiciousModule filePath reg"
  by (intro conjI markSuspiciousModule_absent entry_d_alone entry_d_then_c
        markSuspiciousModule_idem) simp

lemma cycle_entry_report:
  "report_entry 3 sample_env sample_cfg [''/p/a.js''] = Some (Inr [(''/p/b.js'', [''/p/a.js''])])"
  by code_simp

lemma cycle_entry_record_a:
  "record_entry 3 sample_env sample_cfg [''/p/a.js''] ''/p/a.js'' =
     Some (Inr (Some \<lparr>hasDefaultExport = False, callers = [''/p/b.js'']\<rparr>))"
  by code_simp

lemma cycle_entry_record_b:
  "record_entry 3 sample_env sample_cfg [''/p/a.js''] ''/p/b.js'' =
     Some (Inr (Some \<lparr>hasDefaultExport = True, callers = [''/p/a.js'']\<rparr>))"
  by code_simp

lemma cycle_scan_report:
  "report_scan sample_env sample_cfg [''/p/a.js'', ''/p/b.js''] = Inr []"
  by code_simp

lemma cycle_scan_record_a:
  "record_scan sample_env sample_cfg [''/p/a.js'', ''/p/b.js''] ''/p/a.js'' =
     Inr (Some \<lparr>hasDefaultExport = True, callers = []\<rparr>)"
  by code_simp

lemma cycle_scan_record_b:
  "record_scan sample_env sample_cfg [''/p/a.js'', ''/p/b.js''] ''/p/b.js'' =
     Inr (Some \<lparr>hasDefaultExport = False, callers = [''/p/a.js:1:10'']\<rparr>)"
  by code_simp

text \<open>
  Claim C4, on the code. \<^verbatim>\<open>a.js\<close> and \<^verbatim>\<open>b.js\<close> require each other and both have a default
  export. Both versions terminate on the cycle (the entry-seeded drain loop after three
  iterations). The entry-seeded version, started at \<^verbatim>\<open>a.js\<close>, reports \<^verbatim>\<open>b.js\<close> alone: the
  record of \<^verbatim>\<open>a.js\<close> has its caller and the flag unset. The directory-scan version reports
  neither: \<^verbatim>\<open>a.js\<close> has the flag and no caller, \<^verbatim>\<open>b.js\<close> the caller and no flag.
\<close>

theorem C4_two_file_cycle:
  "report_entry 3 sample_env sample_cfg [''/p/a.js''] = Some (Inr [(''/p/b.js'', [''/p/a.js''])])
   \<and> record_entry 3 sample_env sample_cfg [''/p/a.js''] ''/p/a.js'' =
     Some (Inr (Some \<lparr>hasDefaultExport = False, callers = [''/p/b.js'']\<rparr>))
   \<and> record_entry 3 sample_env sample_cfg [''/p/a.js''] ''/p/b.js'' =
     Some (Inr (Some \<lparr>hasDefaultExport = True, callers = [''/p/a.js'']\<rparr>))
   \<and> report_scan sample_env sample_cfg [''/p/a.js'', ''/p/b.js''] = Inr []
   \<and> record_scan sample_env sample_cfg [''/p/a.js'', ''/p/b.js''] ''/p/a.js'' =
     Inr (Some \<lparr>hasDefaultExport = True, callers = []\<rparr>)
   \<and> record_scan sample_env sample_cfg [''/p/a.js'', ''/p/b.js''] ''/p/b.js'' =
     Inr (Some \<lparr>hasDefaultExport = False, callers = [''/p/a.js:1:10'']\<rparr>)"
  by (intro conjI cycle_entry_report cycle_entry_record_a cycle_entry_record_b
        cycle_scan_report cycle_scan_record_a cycle_scan_record_b)

subsection \<open>A require with a computed argument\<close>

lemma visit_scan_not_string:
  "\<forall>s. argument_value a \<noteq> JString s \<Longrightarrow>
   visit_scan env cfg file
     (CallExpression (require_call (a # args) loc) (VariableDeclarator ''Identifier'')) reg =
   Inl TypeError"
  by (cases "argument_value a")
     (simp_all add: visit_scan_def VariableDeclarator_def require_call_def)

lemma visit_entry_not_string:
  "\<forall>s. argument_value a \<noteq> JString s \<Longrightarrow>
   visit_entry env cfg file
     (CallExpression (require_call (a # args) loc) (VariableDeclarator ''Identifier'')) st =
   Inl TypeError"
  by (cases "argument_value a")
     (simp_all add: visit_entry_def VariableDeclarator_def require_call_def)

lemma visit_scan_bigint:
  "visit_scan env cfg file
     (CallExpression (require_call (BigIntLiteral digits # args) loc)
        (VariableDeclarator ''Identifier'')) reg =
   suspectModule_scan env cfg digits file loc reg"
  by (simp add: visit_scan_def VariableDeclarator_def require_call_def)

lemma visit_entry_bigint:
  "visit_entry env cfg file
     (CallExpression (require_call (BigIntLiteral digits # args) loc)
        (VariableDeclarator ''Identifier'')) st =
   visit_entry env cfg file
     (CallExpression (require_call (StringLiteral digits # args) loc)
        (VariableDeclarator ''Identifier'')) st"
  by (simp add: visit_entry_def VariableDeclarator_def require_call_def)

text \<open>
  Claim C6, on the code. Neither visitor looks at the kind of the argument. At
  \<^verbatim>\<open>const x = require(name)\<close> (and at any argument that is an identifier, a number or another
  expression without a string \<^verbatim>\<open>value\<close>) the call passes both tests, is treated as a candidate,
  and the run ends in an uncaught \<^verbatim>\<open>TypeError\<close>, in both versions and in every environment.
  (A BigInt literal, the one other argument with a string \<^verbatim>\<open>value\<close>, is resolved like the
  string literal of its digits, as the two lemmas above say.)
\<close>

theorem C6_computed_require_throws:
  "visit_scan env cfg file
     (CallExpression (require_call (Identifier x # args) loc) (VariableDeclarator ''Identifier'')) reg =
     Inl TypeError
   \<and> visit_scan env cfg file
     (CallExpression (require_call (OtherExpression # args) loc) (VariableDeclarator ''Identifier'')) reg =
     Inl TypeError
   \<and> visit_scan env cfg file
     (CallExpression (require_call (NumericLiteral n # args) loc) (VariableDeclarator ''Identifier'')) reg =
     Inl TypeError
   \<and> visit_entry env cfg file
     (CallExpression (require_call (Identifier x # args) loc) (VariableDeclarator ''Identifier'')) st =
     Inl TypeError
   \<and> visit_entry env cfg file
     (CallExpression (require_call (OtherExpression # args) loc) (VariableDeclarator ''Identifier'')) st =
     Inl TypeError
   \<and> visit_entry env cfg file
     (CallExpression (require_call (NumericLiteral n # args) loc) (VariableDeclarator ''Identifier'')) st =
     Inl TypeError"
  by (intro conjI visit_scan_not_string visit_entry_not_string) simp_all

lemma computed_require_scan:
  "report_scan sample_env sample_cfg [''/p/e.js''] = Inl TypeError"
  by code_simp

lemma computed_require_entry:
  "report_entry 1 sample_env sample_cfg [''/p/e.js''] = Some (Inl TypeError)"
  by code_simp

theorem C6_computed_require_throws_witness:
  "visit_scan sample_env sample_cfg ''/p/e.js''
     (CallExpression (require_call [Identifier ''name''] (Some (1, 10)))
        (VariableDeclarator ''Identifier'')) [] = Inl TypeError
   \<and> report_scan sample_env sample_cfg [''/p/e.js''] = Inl TypeError
   \<and> report_entry 1 sample_env sample_cfg [''/p/e.js''] = Some (Inl TypeError)"
  using C6_computed_require_throws[of sample_env sample_cfg "''/p/e.js''" "''name''" "[]"
      "Some (1, 10)" "[]"]
    computed_require_scan computed_require_entry
  by simp

subsection \<open>Resolution\<close>

lemma res_result:
  "res env cfg filePath parentArg =
     (case require_resolve env filePath (res_options env cfg filePath (with_default [] parentArg)) of
        Some resolved \<Rightarrow> Inr resolved
      | None \<Rightarrow> Inl (Exit 1 (res_message env cfg filePath (with_default [] parentArg))))"
  by (simp add: res_def Let_def)

lemma resolveWithExtension_is_res:
  "\<exists>cand. resolveWithExtension env cfg filePath parentArg = res env cfg cand parentArg"
  by (auto simp: resolveWithExtension_def Let_def)

lemma res_message_parts:
  "hd (res_message env cfg cand parent) = ''Couldn't resolve path to module''"
  "truthy (printModulePath env cfg cand) \<Longrightarrow>
     printModulePath env cfg cand \<in> set (res_message env cfg cand parent)"
  "truthy parent \<Longrightarrow>
     ''(required by '' @ printModulePath env cfg parent @ '')'' \<in> set (res_message env cfg cand parent)"
  by (simp_all add: res_message_def truthy_def)

lemma alias_lookup_None:
  "seg \<notin> fst ` set (aliases cfg) \<Longrightarrow> seg \<notin> fst ` set Object_prototype \<Longrightarrow>
   alias_lookup cfg seg = None"
proof -
  assume "seg \<notin> fst ` set (aliases cfg)" and "seg \<notin> fst ` set Object_prototype"
  then have "map_of (aliases cfg) seg = None" and "map_of Object_prototype seg = None"
    by (simp_all only: map_of_eq_None_iff not_False_eq_True)
  then show ?thesis by (simp add: alias_lookup_def)
qed

lemma replaceAlias_no_alias:
  assumes "hd (js_split (path_sep env) filePath) \<notin> fst ` set (aliases cfg)"
    and "hd (js_split (path_sep env) filePath) \<notin> fst ` set Object_prototype"
  shows "replaceAlias env cfg filePath = filePath"
proof -
  from assms have "alias_lookup cfg (hd (js_split (path_sep env) filePath)) = None"
    by (rule alias_lookup_None)
  then show ?thesis
    by (cases "js_split (path_sep env) filePath") (simp_all add: replaceAlias_def)
qed

lemma empty_segment_not_inherited: "[] \<notin> fst ` set Object_prototype"
  by (simp add: Object_prototype_def)

lemma sample_inherited_alias:
  "replaceAlias sample_env sample_cfg ''toString/x'' =
     ''/p/function toString() { [native code] }/x''"
  by code_simp

lemma posix_absolute_first_segment:
  "posix_isAbsolute filePath \<Longrightarrow> hd (js_split CHR ''/'' filePath) = []"
  by (cases filePath) (simp_all add: posix_isAbsolute_def)

text \<open>
  Claim C5, as the code has it. The directory-scan version returns an absolute specifier as it
  is: no alias handling, no extension resolution, no direct resolution. The entry-seeded
  version has no test for absolute paths: the specifier goes through alias handling, which
  leaves it alone unless its first segment is an alias key, configured or inherited (for an
  absolute POSIX path the first segment is the empty string, which is not an inherited
  name), and then through extension resolution.
\<close>

theorem C5_absolute_specifier:
  "(path_isAbsolute env filePath \<longrightarrow> resolveFilePath_scan env cfg filePath parent = Inr filePath)
   \<and> (hd (js_split (path_sep env) filePath) \<notin> fst ` set (aliases cfg)
        \<and> hd (js_split (path_sep env) filePath) \<notin> fst ` set Object_prototype \<longrightarrow>
        resolveFilePath_entry env cfg filePath parentArg =
          resolveWithExtension env cfg filePath parentArg)
   \<and> (posix_isAbsolute filePath \<longrightarrow>
        hd (js_split CHR ''/'' filePath) = []
        \<and> hd (js_split CHR ''/'' filePath) \<notin> fst ` set Object_prototype)"
  by (simp add: resolveFilePath_scan_def resolveFilePath_entry_def replaceAlias_no_alias
        posix_absolute_first_segment empty_segment_not_inherited)

lemma sample_absolute_scan:
  "resolveFilePath_scan sample_env sample_cfg ''/p/d'' ''/p/c.js'' = Inr ''/p/d''"
  by code_simp

lemma sample_absolute_extension:
  "resolveWithExtension sample_env sample_cfg ''/p/d'' (Some ''/p/c.js'') = Inr ''/p/d.js''"
  by code_simp

lemma sample_absolute_missing_scan:
  "resolveFilePath_scan sample_env sample_cfg ''/nowhere/x'' ''/p/c.js'' = Inr ''/nowhere/x''"
  by code_simp

lemma sample_absolute_missing_extension:
  "resolveWithExtension sample_env sample_cfg ''/nowhere/x'' (Some ''/p/c.js'') =
     Inl (Exit 1 [''Couldn't resolve path to module'', ''/nowhere/x'', ''(required by c.js)''])"
  by code_simp

text \<open>
  Claim C5, as stated, fails in the directory-scan version: the absolute specifier \<^verbatim>\<open>/p/d\<close>
  comes back untouched although extension resolution finds \<^verbatim>\<open>/p/d.js\<close>, and an absolute
  specifier of no file comes back untouched although extension resolution fails on it.
\<close>

theorem C5_absolute_specifier_counterexample:
  "resolveFilePath_scan sample_env sample_cfg ''/p/d'' ''/p/c.js'' = Inr ''/p/d''
   \<and> resolveWithExtension sample_env sample_cfg ''/p/d'' (Some ''/p/c.js'') = Inr ''/p/d.js''
   \<and> resolveFilePath_scan sample_env sample_cfg ''/nowhere/x'' ''/p/c.js'' = Inr ''/nowhere/x''
   \<and> resolveWithExtension sample_env sample_cfg ''/nowhere/x'' (Some ''/p/c.js'') =
       Inl (Exit 1 [''Couldn't resolve path to module'', ''/nowhere/x'', ''(required by c.js)''])"
  by (intro conjI sample_absolute_scan sample_absolute_extension sample_absolute_missing_scan
        sample_absolute_missing_extension)

lemma sample_env_fields:
  "path_isAbsolute sample_env = posix_isAbsolute" "path_sep sample_env = CHR ''/''"
  by (simp_all add: sample_env_def table_env_def)

lemma sample_absolute_entry:
  "resolveFilePath_entry sample_env sample_cfg ''/p/d'' (Some ''/p/c.js'') = Inr ''/p/d.js''"
  by code_simp

theorem C5_absolute_specifier_witness:
  "posix_isAbsolute ''/p/d''
   \<and> resolveFilePath_scan sample_env sample_cfg ''/p/d'' ''/p/c.js'' = Inr ''/p/d''
   \<and> hd (js_split CHR ''/'' ''/p/d'') = []
   \<and> resolveFilePath_entry sample_env sample_cfg ''/p/d'' (Some ''/p/c.js'') =
       resolveWithExtension sample_env sample_cfg ''/p/d'' (Some ''/p/c.js'')
   \<and> resolveFilePath_entry sample_env sample_cfg ''/p/d'' (Some ''/p/c.js'') = Inr ''/p/d.js''"
proof -
  have abs: "posix_isAbsolute ''/p/d''" by (simp add: posix_isAbsolute_def)
  have noalias: "hd (js_split (path_sep sample_env) ''/p/d'') \<notin> fst ` set (aliases sample_cfg)"
    by (simp add: sample_cfg_def)
  from C5_absolute_specifier[of sample_env "''/p/d''" sample_cfg "''/p/c.js''" "Some ''/p/c.js''"]
    abs noalias sample_absolute_entry
  show ?thesis by (simp add: sample_env_fields empty_segment_not_inherited)
qed

subsection \<open>A specifier that does not resolve\<close>

lemma resolveWithExtension_Inl:
  assumes "resolveWithExtension env cfg filePath parentArg = Inl e"
  shows "\<exists>cand. require_resolve env cand (res_options env cfg cand (with_default [] parentArg)) = None
            \<and> e = Exit 1 (res_message env cfg cand (with_default [] parentArg))"
proof -
  from resolveWithExtension_is_res obtain cand
    where "resolveWithExtension env cfg filePath parentArg = res env cfg cand parentArg" by blast
  with assms have "res env cfg cand parentArg = Inl e" by simp
  then show ?thesis
    by (auto simp: res_result split: option.splits)
qed

lemma resolveFilePath_entry_Inl:
  assumes "resolveFilePath_entry env cfg filePath parentArg = Inl e"
  shows "\<exists>cand. require_resolve env cand (res_options env cfg cand (with_default [] parentArg)) = None
            \<and> e = Exit 1 (res_message env cfg cand (with_default [] parentArg))"
  using assms unfolding resolveFilePath_entry_def by (rule resolveWithExtension_Inl)

lemma visit_scan_unresolved:
  "resolveFilePath_scan env cfg m file = Inl e \<Longrightarrow>
   visit_scan env cfg file
     (CallExpression (require_call (StringLiteral m # args) loc) (VariableDeclarator ''Identifier'')) reg =
   Inl e"
  by (simp add: visit_scan_plain suspectModule_scan_def)

lemma visit_entry_unresolved:
  "resolveFilePath_entry env cfg m (Some file) = Inl e \<Longrightarrow>
   visit_entry env cfg file
     (CallExpression (require_call (StringLiteral m # args) loc) (VariableDeclarator ''Identifier'')) st =
   Inl e"
  by (simp add: visit_entry_plain suspectModule_entry_def)

lemma analyze_entry_unresolved:
  "resolveFilePath_entry env cfg (item_filePath queueItem) (item_parent queueItem) = Inl e \<Longrightarrow>
   analyze_entry env cfg queueItem st = Inl e"
  by (simp add: analyze_entry_def)

lemma execute_entry_unresolved:
  assumes "resolveFilePath_entry env cfg (item_filePath queueItem) (item_parent queueItem) = Inl e"
  shows "execute_entry (Suc n) env cfg (st\<lparr>queue := queueItem # rest\<rparr>) = Some (Inl e)"
  using analyze_entry_unresolved[OF assms] by (simp add: fifo_dequeue_def)

subsection \<open>Entries are not validated\<close>

lemma constructor_entry_root_exists:
  "fs_existsSync env (root cfg) \<Longrightarrow>
   constructor_entry env cfg entries =
     Inr \<lparr>queue = map (\<lambda>entry. \<lparr>item_filePath = entry, item_parent = None\<rparr>) entries,
          analyzedModules = {}, suspiciousModules = []\<rparr>"
  by (simp add: constructor_entry_def validate_entry_def)

lemma run_entry_unresolved_entry:
  assumes "fs_existsSync env (root cfg)"
    and "resolveFilePath_entry env cfg entry None = Inl e"
  shows "run_entry (Suc n) env cfg (entry # entries) = Some (Inl e)"
proof -
  let ?item = "\<lparr>item_filePath = entry, item_parent = None\<rparr>"
  let ?rest = "map (\<lambda>entry. \<lparr>item_filePath = entry, item_parent = None\<rparr>) entries"
  let ?st = "\<lparr>queue = ?item # ?rest, analyzedModules = {}, suspiciousModules = []\<rparr>"
  have "resolveFilePath_entry env cfg (item_filePath ?item) (item_parent ?item) = Inl e"
    using assms(2) by simp
  from execute_entry_unresolved[OF this, where n = n and st = ?st and rest = ?rest]
  have "execute_entry (Suc n) env cfg ?st = Some (Inl e)" by simp
  with assms(1) show ?thesis
    by (simp add: run_entry_def constructor_entry_root_exists)
qed

text \<open>
  Claim C10. In the entry-seeded version validation depends on the root alone: whatever the
  entries, the constructor fails exactly when the root does not exist, and then with the
  root message. With an existing root every list of entries is accepted and queued as it is.
  An entry that does not resolve ends the run at its turn in the drain loop (at once, for the
  first entry) through \<^verbatim>\<open>res\<close>: exit status 1 after \<^verbatim>\<open>Couldn't resolve path to module\<close> and
  the entry, which is not the root message.
\<close>

theorem C10_entries_not_validated:
  "validate_entry env cfg =
     (if fs_existsSync env (root cfg) then None
      else Some (Exit 1 [''Couldn't find root directory'', root cfg]))
   \<and> (fs_existsSync env (root cfg) \<longrightarrow>
        (\<exists>st. constructor_entry env cfg entries = Inr st \<and> map item_filePath (queue st) = entries))
   \<and> (resolveFilePath_entry env cfg entry None = Inl e \<longrightarrow>
        (\<exists>cand. e = Exit 1 (res_message env cfg cand []))
        \<and> e \<noteq> Exit 1 [''Couldn't find root directory'', root cfg]
        \<and> analyze_entry env cfg \<lparr>item_filePath = entry, item_parent = None\<rparr> st = Inl e)
   \<and> (fs_existsSync env (root cfg) \<and> resolveFilePath_entry env cfg entry None = Inl e \<longrightarrow>
        run_entry (Suc n) env cfg (entry # others) = Some (Inl e))"
proof (intro conjI impI)
  show "validate_entry env cfg =
     (if fs_existsSync env (root cfg) then None
      else Some (Exit 1 [''Couldn't find root directory'', root cfg]))"
    by (simp add: validate_entry_def)
next
  assume "fs_existsSync env (root cfg)"
  then show "\<exists>st. constructor_entry env cfg entries = Inr st \<and> map item_filePath (queue st) = entries"
    by (simp add: constructor_entry_root_exists comp_def)
next
  assume a: "resolveFilePath_entry env cfg entry None = Inl e"
  from resolveFilePath_entry_Inl[OF a] obtain cand
    where e: "e = Exit 1 (res_message env cfg cand [])"
    by (auto simp: with_default_def)
  then show "\<exists>cand. e = Exit 1 (res_message env cfg cand [])" by blast
  have "hd (res_message env cfg cand []) = ''Couldn't resolve path to module''"
    by (rule res_message_parts)
  then have "res_message env cfg cand [] \<noteq> [''Couldn't find root directory'', root cfg]"
    by auto
  with e show "e \<noteq> Exit 1 [''Couldn't find root directory'', root cfg]" by simp
  from a show "analyze_entry env cfg \<lparr>item_filePath = entry, item_parent = None\<rparr> st = Inl e"
    by (simp add: analyze_entry_unresolved)
next
  assume "fs_existsSync env (root cfg) \<and> resolveFilePath_entry env cfg entry None = Inl e"
  then show "run_entry (Suc n) env cfg (entry # others) = Some (Inl e)"
    by (simp add: run_entry_unresolved_entry)
qed

lemma sample_root_exists: "fs_existsSync sample_env (root sample_cfg)"
  by code_simp

lemma sample_missing_entry_resolution:
  "resolveFilePath_entry sample_env sample_cfg ''/p/zz.js'' None =
     Inl (Exit 1 [''Couldn't resolve path to module'', ''zz.js''])"
  by code_simp

lemma sample_missing_entry_extensionless:
  "report_entry 1 sample_env sample_cfg [''./zz''] =
     Some (Inl (Exit 1 [''Couldn't resolve path to module'', ''./zz'']))"
  by code_simp

lemma sample_missing_root:
  "run_entry 1 sample_env \<lparr>root = ''/q'', aliases = []\<rparr> [''/p/zz.js''] =
     Some (Inl (Exit 1 [''Couldn't find root directory'', ''/q'']))"
  by code_simp

theorem C10_entries_not_validated_witness:
  "fs_existsSync sample_env (root sample_cfg)
   \<and> (\<exists>st. constructor_entry sample_env sample_cfg [''/p/zz.js'', ''/p/c.js''] = Inr st
          \<and> map item_filePath (queue st) = [''/p/zz.js'', ''/p/c.js''])
   \<and> resolveFilePath_entry sample_env sample_cfg ''/p/zz.js'' None =
       Inl (Exit 1 [''Couldn't resolve path to module'', ''zz.js''])
   \<and> run_entry (Suc 0) sample_env sample_cfg [''/p/zz.js'', ''/p/c.js''] =
       Some (Inl (Exit 1 [''Couldn't resolve path to module'', ''zz.js'']))
   \<and> report_entry 1 sample_env sample_cfg [''./zz''] =
       Some (Inl (Exit 1 [''Couldn't resolve path to module'', ''./zz'']))
   \<and> run_entry 1 sample_env \<lparr>root = ''/q'', aliases = []\<rparr> [''/p/zz.js''] =
       Some (Inl (Exit 1 [''Couldn't find root directory'', ''/q'']))"
proof -
  note t = C10_entries_not_validated[where env = sample_env and cfg = sample_cfg
      and entries = "[''/p/zz.js'', ''/p/c.js'']" and entry = "''/p/zz.js''"
      and e = "Exit 1 [''Couldn't resolve path to module'', ''zz.js'']"
      and st = "\<lparr>queue = [], analyzedModules = {}, suspiciousModules = []\<rparr>"
      and n = 0 and others = "[''/p/c.js'']"]
  from t sample_root_exists
  have c: "\<exists>st. constructor_entry sample_env sample_cfg [''/p/zz.js'', ''/p/c.js''] = Inr st
          \<and> map item_filePath (queue st) = [''/p/zz.js'', ''/p/c.js'']" by blast
  from t sample_root_exists sample_missing_entry_resolution
  have r: "run_entry (Suc 0) sample_env sample_cfg [''/p/zz.js'', ''/p/c.js''] =
       Some (Inl (Exit 1 [''Couldn't resolve path to module'', ''zz.js'']))" by blast
  from sample_root_exists c sample_missing_entry_resolution r sample_missing_entry_extensionless
    sample_missing_root
  show ?thesis by (intro conjI)
qed

subsection \<open>Which edges reach the resolution chain\<close>

lemma resolveWithExtension_candidate:
  "resolveWithExtension env cfg filePath parentArg =
     res env cfg (resolution_candidate env cfg filePath parentArg) parentArg"
  by (simp add: resolveWithExtension_def resolution_candidate_def Let_def)

lemma res_Inl_message:
  "res env cfg cand parentArg = Inl e \<Longrightarrow>
   e = Exit 1 (res_message env cfg cand (with_default [] parentArg))"
  by (auto simp: res_result split: option.splits)

lemma resolveFilePath_scan_Inl_candidate:
  assumes "resolveFilePath_scan env cfg m file = Inl e"
  shows "e = Exit 1 (res_message env cfg
               (resolution_candidate env cfg (replaceAlias env cfg m) (Some file)) file)"
proof -
  from assms have "resolveWithExtension env cfg (replaceAlias env cfg m) (Some file) = Inl e"
    by (simp add: resolveFilePath_scan_def split: if_splits)
  then have "res env cfg (resolution_candidate env cfg (replaceAlias env cfg m) (Some file))
               (Some file) = Inl e"
    by (simp only: resolveWithExtension_candidate)
  from res_Inl_message[OF this] show ?thesis by (simp only: with_default_def option.case)
qed

lemma resolveFilePath_entry_Inl_candidate:
  assumes "resolveFilePath_entry env cfg m parentArg = Inl e"
  shows "e = Exit 1 (res_message env cfg
               (resolution_candidate env cfg (replaceAlias env cfg m) parentArg)
               (with_default [] parentArg))"
proof -
  from assms have "res env cfg (resolution_candidate env cfg (replaceAlias env cfg m) parentArg)
               parentArg = Inl e"
    by (simp only: resolveFilePath_entry_def resolveWithExtension_candidate)
  then show ?thesis by (rule res_Inl_message)
qed

lemma traverse_scan_append:
  "traverse_scan env cfg file (pre @ post) reg =
     (case traverse_scan env cfg file pre reg of
        Inl e \<Rightarrow> Inl e
      | Inr reg1 \<Rightarrow> traverse_scan env cfg file post reg1)"
  by (induction pre arbitrary: reg) (auto split: sum.splits)

lemma traverse_entry_append:
  "traverse_entry env cfg file (pre @ post) st =
     (case traverse_entry env cfg file pre st of
        Inl e \<Rightarrow> Inl e
      | Inr st1 \<Rightarrow> traverse_entry env cfg file post st1)"
  by (induction pre arbitrary: st) (auto split: sum.splits)

lemma traverse_scan_unresolved:
  assumes "resolveFilePath_scan env cfg m file = Inl e"
    and "traverse_scan env cfg file pre reg = Inr reg1"
  shows "traverse_scan env cfg file
           (pre @ CallExpression (require_call [StringLiteral m] loc)
                    (VariableDeclarator ''Identifier'') # post) reg = Inl e"
  using assms(2) visit_scan_unresolved[OF assms(1), of "[]" loc reg1]
  by (simp add: traverse_scan_append)

lemma traverse_entry_unresolved:
  assumes "resolveFilePath_entry env cfg m (Some file) = Inl e"
    and "traverse_entry env cfg file pre st = Inr st1"
  shows "traverse_entry env cfg file
           (pre @ CallExpression (require_call [StringLiteral m] loc)
                    (VariableDeclarator ''Identifier'') # post) st = Inl e"
  using assms(2) visit_entry_unresolved[OF assms(1), of "[]" loc st1]
  by (simp add: traverse_entry_append)

lemma visit_scan_absolute:
  assumes "path_isAbsolute env m"
  shows "\<exists>reg'. visit_scan env cfg file
                  (CallExpression (require_call [StringLiteral m] loc)
                     (VariableDeclarator ''Identifier'')) reg = Inr reg'
               \<and> (\<exists>d. map_of reg' m = Some d \<and> callerRef file loc \<in> set (callers d))"
proof -
  from assms have "resolveFilePath_scan env cfg m file = Inr m"
    by (simp add: resolveFilePath_scan_def)
  from suspectModule_scan_records[OF this, of loc reg] show ?thesis
    by (simp add: visit_scan_plain)
qed

lemma visit_scan_import: "visit_scan env cfg file (ImportDeclaration source) reg = Inr reg"
  by (simp add: visit_scan_def)

lemma visit_entry_import_dropped:
  assumes "(truthy (path_extname env source) \<and> path_extname env source \<notin> PARSEABLE_EXTENSIONS)
            \<or> js_includes file ''node_modules''"
  shows "visit_entry env cfg file (ImportDeclaration source) st = Inr st"
  using assms by (auto simp: visit_entry_def safePushToQueue_def Let_def)

lemma visit_entry_import_queued:
  assumes "path_extname env source = [] \<or> path_extname env source \<in> PARSEABLE_EXTENSIONS"
    and "\<not> js_includes file ''node_modules''"
  shows "visit_entry env cfg file (ImportDeclaration source) st =
           Inr (st\<lparr>queue := queue st @ [\<lparr>item_filePath = source, item_parent = Some file\<rparr>]\<rparr>)"
  using assms by (auto simp: visit_entry_def safePushToQueue_def Let_def fifo_enqueue_def truthy_def)

text \<open>
  Claim C7, as the code has it. The resolution chain always ends in \<^verbatim>\<open>res\<close> on one candidate:
  the path after alias substitution, or the file that a probe found. \<^verbatim>\<open>res\<close> has two
  outcomes: the path that \<^verbatim>\<open>require.resolve\<close> returned, or \<^verbatim>\<open>process.exit(1)\<close> after printing
  \<^verbatim>\<open>Couldn't resolve path to module\<close>, the candidate as \<^verbatim>\<open>printModulePath\<close> prints it and, when
  there is a referencing file, that file. A plain \<^verbatim>\<open>require\<close> whose specifier enters the chain
  and fails ends the traversal of its file with that exit, in both versions, and an edge
  taken from the queue of the entry-seeded version that fails ends the drain loop with it.

  Not every edge enters the chain. The directory-scan version records an absolute
  specifier without resolving it and does not look at imports. The entry-seeded version
  does not resolve an import where it visits it: it drops the edge when the specifier has an
  extension that is not parseable or the visited file has \<^verbatim>\<open>node_modules\<close> in its path, and
  enqueues it otherwise.
\<close>

theorem C7_resolution_failure_is_fatal:
  "resolveWithExtension env cfg filePath parentArg =
     res env cfg (resolution_candidate env cfg filePath parentArg) parentArg
   \<and> res env cfg cand parentArg =
       (case require_resolve env cand (res_options env cfg cand (with_default [] parentArg)) of
          Some resolved \<Rightarrow> Inr resolved
        | None \<Rightarrow> Inl (Exit 1 (res_message env cfg cand (with_default [] parentArg))))
   \<and> hd (res_message env cfg cand parent) = ''Couldn't resolve path to module''
   \<and> (truthy (printModulePath env cfg cand) \<longrightarrow>
        printModulePath env cfg cand \<in> set (res_message env cfg cand parent))
   \<and> (truthy parent \<longrightarrow>
        ''(required by '' @ printModulePath env cfg parent @ '')''
          \<in> set (res_message env cfg cand parent))
   \<and> (resolveFilePath_scan env cfg m visited = Inl e \<and> traverse_scan env cfg visited pre reg = Inr reg1 \<longrightarrow>
        e = Exit 1 (res_message env cfg
              (resolution_candidate env cfg (replaceAlias env cfg m) (Some visited)) visited)
        \<and> visit_scan env cfg visited
            (CallExpression (require_call [StringLiteral m] loc) (VariableDeclarator ''Identifier''))
            reg1 = Inl e
        \<and> traverse_scan env cfg visited
            (pre @ CallExpression (require_call [StringLiteral m] loc)
                     (VariableDeclarator ''Identifier'') # post) reg = Inl e)
   \<and> (resolveFilePath_entry env cfg m (Some visited) = Inl e
        \<and> traverse_entry env cfg visited pre st = Inr st1 \<longrightarrow>
        e = Exit 1 (res_message env cfg
              (resolution_candidate env cfg (replaceAlias env cfg m) (Some visited)) visited)
        \<and> visit_entry env cfg visited
            (CallExpression (require_call [StringLiteral m] loc) (VariableDeclarator ''Identifier''))
            st1 = Inl e
        \<and> traverse_entry env cfg visited
            (pre @ CallExpression (require_call [StringLiteral m] loc)
                     (VariableDeclarator ''Identifier'') # post) st = Inl e
        \<and> analyze_entry env cfg \<lparr>item_filePath = m, item_parent = Some visited\<rparr> st = Inl e
        \<and> execute_entry (Suc n) env cfg
            (st\<lparr>queue := \<lparr>item_filePath = m, item_parent = Some visited\<rparr> # rest\<rparr>) = Some (Inl e))
   \<and> (path_isAbsolute env m \<longrightarrow>
        (\<exists>reg'. visit_scan env cfg visited
                  (CallExpression (require_call [StringLiteral m] loc)
                     (VariableDeclarator ''Identifier'')) reg = Inr reg'
               \<and> (\<exists>d. map_of reg' m = Some d \<and> callerRef visited loc \<in> set (callers d))))
   \<and> visit_scan env cfg visited (ImportDeclaration source) reg = Inr reg
   \<and> ((truthy (path_extname env source) \<and> path_extname env source \<notin> PARSEABLE_EXTENSIONS)
         \<or> js_includes visited ''node_modules'' \<longrightarrow>
        visit_entry env cfg visited (ImportDeclaration source) st = Inr st)
   \<and> ((path_extname env source = [] \<or> path_extname env source \<in> PARSEABLE_EXTENSIONS)
         \<and> \<not> js_includes visited ''node_modules'' \<longrightarrow>
        visit_entry env cfg visited (ImportDeclaration source) st =
          Inr (st\<lparr>queue := queue st @ [\<lparr>item_filePath = source, item_parent = Some visited\<rparr>]\<rparr>))"
proof (intro conjI impI)
  show "resolveWithExtension env cfg filePath parentArg =
     res env cfg (resolution_candidate env cfg filePath parentArg) parentArg"
    by (rule resolveWithExtension_candidate)
  show "res env cfg cand parentArg =
       (case require_resolve env cand (res_options env cfg cand (with_default [] parentArg)) of
          Some resolved \<Rightarrow> Inr resolved
        | None \<Rightarrow> Inl (Exit 1 (res_message env cfg cand (with_default [] parentArg))))"
    by (rule res_result)
  show "hd (res_message env cfg cand parent) = ''Couldn't resolve path to module''"
    by (rule res_message_parts)
  show "visit_scan env cfg visited (ImportDeclaration source) reg = Inr reg"
    by (rule visit_scan_import)
next
  assume "truthy (printModulePath env cfg cand)"
  then show "printModulePath env cfg cand \<in> set (res_message env cfg cand parent)"
    by (rule res_message_parts)
next
  assume "truthy parent"
  then show "''(required by '' @ printModulePath env cfg parent @ '')''
          \<in> set (res_message env cfg cand parent)"
    by (rule res_message_parts)
next
  assume a: "resolveFilePath_scan env cfg m visited = Inl e \<and> traverse_scan env cfg visited pre reg = Inr reg1"
  then have r: "resolveFilePath_scan env cfg m visited = Inl e"
    and t: "traverse_scan env cfg visited pre reg = Inr reg1" by simp_all
  from r show "e = Exit 1 (res_message env cfg
              (resolution_candidate env cfg (replaceAlias env cfg m) (Some visited)) visited)"
    by (rule resolveFilePath_scan_Inl_candidate)
  from r show "visit_scan env cfg visited
            (CallExpression (require_call [StringLiteral m] loc) (VariableDeclarator ''Identifier''))
            reg1 = Inl e"
    by (rule visit_scan_unresolved)
  from r t show "traverse_scan env cfg visited
            (pre @ CallExpression (require_call [StringLiteral m] loc)
                     (VariableDeclarator ''Identifier'') # post) reg = Inl e"
    by (rule traverse_scan_unresolved)
next
  assume a: "resolveFilePath_entry env cfg m (Some visited) = Inl e
        \<and> traverse_entry env cfg visited pre st = Inr st1"
  then have r: "resolveFilePath_entry env cfg m (Some visited) = Inl e"
    and t: "traverse_entry env cfg visited pre st = Inr st1" by simp_all
  from resolveFilePath_entry_Inl_candidate[OF r]
  show "e = Exit 1 (res_message env cfg
              (resolution_candidate env cfg (replaceAlias env cfg m) (Some visited)) visited)"
    by (simp only: with_default_def option.case)
  from r show "visit_entry env cfg visited
            (CallExpression (require_call [StringLiteral m] loc) (VariableDeclarator ''Identifier''))
            st1 = Inl e"
    by (rule visit_entry_unresolved)
  from r t show "traverse_entry env cfg visited
            (pre @ CallExpression (require_call [StringLiteral m] loc)
                     (VariableDeclarator ''Identifier'') # post) st = Inl e"
    by (rule traverse_entry_unresolved)
  from r show "analyze_entry env cfg \<lparr>item_filePath = m, item_parent = Some visited\<rparr> st = Inl e"
    by (simp add: analyze_entry_unresolved)
  from r show "execute_entry (Suc n) env cfg
            (st\<lparr>queue := \<lparr>item_filePath = m, item_parent = Some visited\<rparr> # rest\<rparr>) = Some (Inl e)"
    by (intro execute_entry_unresolved) simp
next
  assume "path_isAbsolute env m"
  then show "\<exists>reg'. visit_scan env cfg visited
                  (CallExpression (require_call [StringLiteral m] loc)
                     (VariableDeclarator ''Identifier'')) reg = Inr reg'
               \<and> (\<exists>d. map_of reg' m = Some d \<and> callerRef visited loc \<in> set (callers d))"
    by (rule visit_scan_absolute)
next
  assume "(truthy (path_extname env source) \<and> path_extname env source \<notin> PARSEABLE_EXTENSIONS)
         \<or> js_includes visited ''node_modules''"
  then show "visit_entry env cfg visited (ImportDeclaration source) st = Inr st"
    by (rule visit_entry_import_dropped)
next
  assume "(path_extname env source = [] \<or> path_extname env source \<in> PARSEABLE_EXTENSIONS)
         \<and> \<not> js_includes visited ''node_modules''"
  then show "visit_entry env cfg visited (ImportDeclaration source) st =
          Inr (st\<lparr>queue := queue st @ [\<lparr>item_filePath = source, item_parent = Some visited\<rparr>]\<rparr>)"
    by (intro visit_entry_import_queued) simp_all
qed

lemma sample_import_json_run:
  "report_entry 1 sample_env sample_cfg [''/p/i.js''] = Some (Inr [])"
  by code_simp

lemma sample_import_json_unresolvable:
  "resolveFilePath_entry sample_env sample_cfg ''./missing.json'' (Some ''/p/i.js'') =
     Inl (Exit 1 [''Couldn't resolve path to module'', ''./missing.json'', ''(required by i.js)''])"
  by code_simp

lemma sample_absolute_require_run:
  "report_scan sample_env sample_cfg [''/p/j.js''] = Inr []"
  by code_simp

lemma sample_absolute_require_record:
  "record_scan sample_env sample_cfg [''/p/j.js''] ''/nowhere/x'' =
     Inr (Some \<lparr>hasDefaultExport = False, callers = [''/p/j.js:1:10'']\<rparr>)"
  by code_simp

lemma sample_absolute_require_unresolvable:
  "resolveWithExtension sample_env sample_cfg ''/nowhere/x'' (Some ''/p/j.js'') =
     Inl (Exit 1 [''Couldn't resolve path to module'', ''/nowhere/x'', ''(required by j.js)''])"
  by code_simp

text \<open>
  Claim C7, as stated, fails in its last clause. In the entry-seeded version \<^verbatim>\<open>i.js\<close> imports
  \<^verbatim>\<open>./missing.json\<close>, which does not resolve: the edge is dropped and the run ends normally
  with an empty report. In the directory-scan version \<^verbatim>\<open>j.js\<close> requires \<^verbatim>\<open>/nowhere/x\<close>, on
  which the resolution chain fails: the specifier is recorded unresolved and the run ends
  normally.
\<close>

theorem C7_unresolved_edge_skipped_counterexample:
  "report_entry 1 sample_env sample_cfg [''/p/i.js''] = Some (Inr [])
   \<and> resolveFilePath_entry sample_env sample_cfg ''./missing.json'' (Some ''/p/i.js'') =
       Inl (Exit 1 [''Couldn't resolve path to module'', ''./missing.json'', ''(required by i.js)''])
   \<and> report_scan sample_env sample_cfg [''/p/j.js''] = Inr []
   \<and> record_scan sample_env sample_cfg [''/p/j.js''] ''/nowhere/x'' =
       Inr (Some \<lparr>hasDefaultExport = False, callers = [''/p/j.js:1:10'']\<rparr>)
   \<and> resolveWithExtension sample_env sample_cfg ''/nowhere/x'' (Some ''/p/j.js'') =
       Inl (Exit 1 [''Couldn't resolve path to module'', ''/nowhere/x'', ''(required by j.js)''])"
  by (intro conjI sample_import_json_run sample_import_json_unresolvable
        sample_absolute_require_run sample_absolute_require_record
        sample_absolute_require_unresolvable)

lemma sample_missing_scan:
  "resolveFilePath_scan sample_env sample_cfg ''./missing'' ''/p/h.js'' =
     Inl (Exit 1 [''Couldn't resolve path to module'', ''./missing'', ''(required by h.js)''])"
  by code_simp

lemma sample_missing_entry:
  "resolveFilePath_entry sample_env sample_cfg ''./missing'' (Some ''/p/h.js'') =
     Inl (Exit 1 [''Couldn't resolve path to module'', ''./missing'', ''(required by h.js)''])"
  by code_simp

lemma sample_found_extension:
  "resolveWithExtension sample_env sample_cfg ''./d'' (Some ''/p/c.js'') = Inr ''/p/d.js''"
  by code_simp

lemma sample_found_candidate:
  "resolution_candidate sample_env sample_cfg ''./d'' (Some ''/p/c.js'') = ''/p/d.js''"
  by code_simp

lemma sample_missing_candidate:
  "resolution_candidate sample_env sample_cfg (replaceAlias sample_env sample_cfg ''./missing'')
     (Some ''/p/h.js'') = ''./missing''"
  by code_simp

lemma sample_missing_run_scan:
  "report_scan sample_env sample_cfg [''/p/h.js''] =
     Inl (Exit 1 [''Couldn't resolve path to module'', ''./missing'', ''(required by h.js)''])"
  by code_simp

lemma sample_missing_run_entry:
  "report_entry 1 sample_env sample_cfg [''/p/h.js''] =
     Some (Inl (Exit 1 [''Couldn't resolve path to module'', ''./missing'', ''(required by h.js)'']))"
  by code_simp

lemma sample_printed_candidate:
  "res_message sample_env sample_cfg ''../p/zz'' [] = [''Couldn't resolve path to module'', ''..zz'']"
  by code_simp

lemma sample_extensions:
  "truthy (path_extname sample_env ''./missing.json'')"
  "path_extname sample_env ''./missing.json'' \<notin> PARSEABLE_EXTENSIONS"
  "path_extname sample_env ''./missing'' = []"
  "\<not> js_includes ''/p/h.js'' ''node_modules''"
  "path_isAbsolute sample_env ''/nowhere/x''"
  by code_simp+

theorem C7_resolution_failure_is_fatal_witness:
  "resolveWithExtension sample_env sample_cfg ''./d'' (Some ''/p/c.js'') =
     res sample_env sample_cfg ''/p/d.js'' (Some ''/p/c.js'')
   \<and> resolveWithExtension sample_env sample_cfg ''./d'' (Some ''/p/c.js'') = Inr ''/p/d.js''
   \<and> resolveFilePath_scan sample_env sample_cfg ''./missing'' ''/p/h.js'' =
       Inl (Exit 1 [''Couldn't resolve path to module'', ''./missing'', ''(required by h.js)''])
   \<and> Exit 1 [''Couldn't resolve path to module'', ''./missing'', ''(required by h.js)''] =
       Exit 1 (res_message sample_env sample_cfg ''./missing'' ''/p/h.js'')
   \<and> traverse_scan sample_env sample_cfg ''/p/h.js''
        [OtherNode,
         CallExpression (require_call [StringLiteral ''./missing''] (Some (1, 10)))
           (VariableDeclarator ''Identifier'')] [] =
       Inl (Exit 1 [''Couldn't resolve path to module'', ''./missing'', ''(required by h.js)''])
   \<and> traverse_entry sample_env sample_cfg ''/p/h.js''
        [OtherNode,
         CallExpression (require_call [StringLiteral ''./missing''] (Some (1, 10)))
           (VariableDeclarator ''Identifier'')]
        \<lparr>queue = [], analyzedModules = {}, suspiciousModules = []\<rparr> =
       Inl (Exit 1 [''Couldn't resolve path to module'', ''./missing'', ''(required by h.js)''])
   \<and> execute_entry (Suc 0) sample_env sample_cfg
        (\<lparr>queue = [], analyzedModules = {}, suspiciousModules = []\<rparr>
           \<lparr>queue := [\<lparr>item_filePath = ''./missing'', item_parent = Some ''/p/h.js''\<rparr>]\<rparr>) =
       Some (Inl (Exit 1 [''Couldn't resolve path to module'', ''./missing'', ''(required by h.js)'']))
   \<and> (\<exists>reg'. visit_scan sample_env sample_cfg ''/p/j.js''
                 (CallExpression (require_call [StringLiteral ''/nowhere/x''] (Some (1, 10)))
                    (VariableDeclarator ''Identifier'')) [] = Inr reg'
              \<and> (\<exists>d. map_of reg' ''/nowhere/x'' = Some d
                     \<and> callerRef ''/p/j.js'' (Some (1, 10)) \<in> set (callers d)))
   \<and> visit_entry sample_env sample_cfg ''/p/i.js'' (ImportDeclaration ''./missing.json'')
        \<lparr>queue = [], analyzedModules = {}, suspiciousModules = []\<rparr> =
       Inr \<lparr>queue = [], analyzedModules = {}, suspiciousModules = []\<rparr>
   \<and> visit_entry sample_env sample_cfg ''/p/h.js'' (ImportDeclaration ''./missing'')
        \<lparr>queue = [], analyzedModules = {}, suspiciousModules = []\<rparr> =
       Inr (\<lparr>queue = [], analyzedModules = {}, suspiciousModules = []\<rparr>
              \<lparr>queue := queue \<lparr>queue = [], analyzedModules = {}, suspiciousModules = []\<rparr>
                  @ [\<lparr>item_filePath = ''./missing'', item_parent = Some ''/p/h.js''\<rparr>]\<rparr>)
   \<and> report_scan sample_env sample_cfg [''/p/h.js''] =
       Inl (Exit 1 [''Couldn't resolve path to module'', ''./missing'', ''(required by h.js)''])
   \<and> report_entry 1 sample_env sample_cfg [''/p/h.js''] =
       Some (Inl (Exit 1 [''Couldn't resolve path to module'', ''./missing'', ''(required by h.js)'']))
   \<and> res_message sample_env sample_cfg ''../p/zz'' [] =
       [''Couldn't resolve path to module'', ''..zz'']"
proof -
  let ?e = "Exit 1 [''Couldn't resolve path to module'', ''./missing'', ''(required by h.js)'']"
  let ?st = "\<lparr>queue = [], analyzedModules = {}, suspiciousModules = []\<rparr>"
  let ?call = "CallExpression (require_call [StringLiteral ''./missing''] (Some (1, 10)))
           (VariableDeclarator ''Identifier'')"
  have pre_scan: "traverse_scan sample_env sample_cfg ''/p/h.js'' [OtherNode] [] = Inr []"
    by (simp add: visit_scan_def)
  have pre_entry: "traverse_entry sample_env sample_cfg ''/p/h.js'' [OtherNode] ?st = Inr ?st"
    by (simp add: visit_entry_def)
  note found = C7_resolution_failure_is_fatal[where env = sample_env and cfg = sample_cfg
      and filePath = "''./d''" and parentArg = "Some ''/p/c.js''"]
  note missing = C7_resolution_failure_is_fatal[where env = sample_env and cfg = sample_cfg
      and m = "''./missing''" and visited = "''/p/h.js''" and e = ?e and pre = "[OtherNode]"
      and reg = "[]" and ?reg1.0 = "[]" and loc = "Some (1, 10)" and post = "[]" and st = ?st
      and ?st1.0 = ?st and n = 0 and rest = "[]" and source = "''./missing''"]
  note absolute = C7_resolution_failure_is_fatal[where env = sample_env and cfg = sample_cfg
      and m = "''/nowhere/x''" and visited = "''/p/j.js''" and loc = "Some (1, 10)" and reg = "[]"]
  note dropped = C7_resolution_failure_is_fatal[where env = sample_env and cfg = sample_cfg
      and visited = "''/p/i.js''" and source = "''./missing.json''" and st = ?st]
  from found have c1: "resolveWithExtension sample_env sample_cfg ''./d'' (Some ''/p/c.js'') =
     res sample_env sample_cfg ''/p/d.js'' (Some ''/p/c.js'')"
    by (simp only: sample_found_candidate)
  from missing sample_missing_scan pre_scan
  have c4: "?e = Exit 1 (res_message sample_env sample_cfg
              (resolution_candidate sample_env sample_cfg
                 (replaceAlias sample_env sample_cfg ''./missing'') (Some ''/p/h.js'')) ''/p/h.js'')"
    and c5: "traverse_scan sample_env sample_cfg ''/p/h.js'' ([OtherNode] @ ?call # []) [] = Inl ?e"
    by blast+
  from missing sample_missing_entry pre_entry
  have c6: "traverse_entry sample_env sample_cfg ''/p/h.js'' ([OtherNode] @ ?call # []) ?st = Inl ?e"
    and c7: "execute_entry (Suc 0) sample_env sample_cfg
        (?st\<lparr>queue := [\<lparr>item_filePath = ''./missing'', item_parent = Some ''/p/h.js''\<rparr>]\<rparr>) =
       Some (Inl ?e)"
    by blast+
  from absolute sample_extensions(5)
  have c8: "\<exists>reg'. visit_scan sample_env sample_cfg ''/p/j.js''
                 (CallExpression (require_call [StringLiteral ''/nowhere/x''] (Some (1, 10)))
                    (VariableDeclarator ''Identifier'')) [] = Inr reg'
              \<and> (\<exists>d. map_of reg' ''/nowhere/x'' = Some d
                     \<and> callerRef ''/p/j.js'' (Some (1, 10)) \<in> set (callers d))"
    by blast
  from dropped sample_extensions(1,2)
  have c9: "visit_entry sample_env sample_cfg ''/p/i.js'' (ImportDeclaration ''./missing.json'') ?st =
       Inr ?st"
    by blast
  from missing sample_extensions(3,4)
  have c10: "visit_entry sample_env sample_cfg ''/p/h.js'' (ImportDeclaration ''./missing'') ?st =
       Inr (?st\<lparr>queue := queue ?st
              @ [\<lparr>item_filePath = ''./missing'', item_parent = Some ''/p/h.js''\<rparr>]\<rparr>)"
    by blast
  from c4 have c4': "?e = Exit 1 (res_message sample_env sample_cfg ''./missing'' ''/p/h.js'')"
    by (simp only: sample_missing_candidate)
  from c5 have c5': "traverse_scan sample_env sample_cfg ''/p/h.js'' [OtherNode, ?call] [] = Inl ?e"
    by (simp only: append_Cons append_Nil)
  from c6 have c6': "traverse_entry sample_env sample_cfg ''/p/h.js'' [OtherNode, ?call] ?st = Inl ?e"
    by (simp only: append_Cons append_Nil)
  from c1 sample_found_extension sample_missing_scan c4' c5' c6' c7 c8 c9 c10
    sample_missing_run_scan sample_missing_run_entry sample_printed_candidate
  show ?thesis by (intro conjI)
qed

subsection \<open>Edges out of installed dependencies\<close>

lemma safePushToQueue_from_node_modules:
  "item_parent queueItem = Some p \<Longrightarrow> js_includes p ''node_modules'' \<Longrightarrow>
   safePushToQueue env queueItem st = st"
  by (simp add: safePushToQueue_def Let_def)

lemma safePushToQueue_unparseable:
  "truthy (path_extname env (item_filePath queueItem)) \<Longrightarrow>
   path_extname env (item_filePath queueItem) \<notin> PARSEABLE_EXTENSIONS \<Longrightarrow>
   safePushToQueue env queueItem st = st"
  by (simp add: safePushToQueue_def Let_def)

lemma safePushToQueue_pushes:
  "\<not> js_includes p ''node_modules'' \<Longrightarrow>
   path_extname env specifier = [] \<or> path_extname env specifier \<in> PARSEABLE_EXTENSIONS \<Longrightarrow>
   queue (safePushToQueue env \<lparr>item_filePath = specifier, item_parent = Some p\<rparr> st) =
     queue st @ [\<lparr>item_filePath = specifier, item_parent = Some p\<rparr>]"
  by (auto simp: safePushToQueue_def Let_def fifo_enqueue_def truthy_def)

lemma visit_entry_from_node_modules:
  assumes "js_includes resolvedPath ''node_modules''"
    and "visit_entry env cfg resolvedPath nd st = Inr st'"
  shows "queue st' = queue st"
proof (cases nd)
  case (CallExpression node container)
  with assms show ?thesis
    by (auto simp: visit_entry_def Let_def safePushToQueue_from_node_modules
          split: if_splits list.splits jsval.splits sum.splits)
next
  case ExportDefaultDeclaration
  with assms show ?thesis by (auto simp: visit_entry_def)
next
  case (ImportDeclaration source)
  with assms show ?thesis
    by (auto simp: visit_entry_def safePushToQueue_from_node_modules)
next
  case OtherNode
  with assms show ?thesis by (auto simp: visit_entry_def)
qed

lemma traverse_entry_from_node_modules:
  "js_includes resolvedPath ''node_modules'' \<Longrightarrow>
   traverse_entry env cfg resolvedPath ast st = Inr st' \<Longrightarrow> queue st' = queue st"
proof (induction ast arbitrary: st)
  case Nil
  then show ?case by simp
next
  case (Cons nd nds)
  from Cons.prems(2) obtain st1 where v: "visit_entry env cfg resolvedPath nd st = Inr st1"
    and t: "traverse_entry env cfg resolvedPath nds st1 = Inr st'"
    by (auto split: sum.splits)
  from Cons.IH[OF Cons.prems(1) t] visit_entry_from_node_modules[OF Cons.prems(1) v]
  show ?case by simp
qed

lemma analyze_entry_analyzes:
  assumes "resolveFilePath_entry env cfg (item_filePath queueItem) (item_parent queueItem) =
             Inr resolved"
    and "resolved \<notin> analyzedModules st"
    and "path_extname env resolved \<in> PARSEABLE_EXTENSIONS"
    and "fs_readFileSync env resolved = Some source"
    and "babel_parse env source = Some ast"
    and "traverse_entry env cfg resolved ast st = Inr st'"
  shows "analyze_entry env cfg queueItem st =
           Inr (st'\<lparr>analyzedModules := insert resolved (analyzedModules st')\<rparr>)"
  using assms by (simp add: analyze_entry_def)

lemma analyze_entry_skips:
  assumes "resolveFilePath_entry env cfg (item_filePath queueItem) (item_parent queueItem) =
             Inr resolved"
    and "resolved \<in> analyzedModules st \<or> path_extname env resolved \<notin> PARSEABLE_EXTENSIONS"
  shows "analyze_entry env cfg queueItem st = Inr st"
  using assms by (auto simp: analyze_entry_def)

text \<open>
  Claim C9, as the code has it. \<^verbatim>\<open>safePushToQueue\<close> tests the referencing file and the
  specifier, not the file referred to: an edge is dropped when its referencing file has
  \<^verbatim>\<open>node_modules\<close> in its path, so the traversal of such a file enqueues nothing, or when its
  specifier has an extension that is not parseable; every other edge is enqueued, whatever
  it points to. \<^verbatim>\<open>analyze\<close> does not test for \<^verbatim>\<open>node_modules\<close> either: an item taken from the
  queue is analyzed, and its resolved path joins the analyzed modules, when that path has
  a parseable extension and was not analyzed before (and the file reads, parses and
  traverses without error); when the path was analyzed before or its extension is not
  parseable the item is skipped.
\<close>

theorem C9_node_modules_exclusion_by_referrer:
  "(item_parent queueItem = Some p \<and> js_includes p ''node_modules'' \<longrightarrow>
      safePushToQueue env queueItem st = st)
   \<and> (truthy (path_extname env (item_filePath queueItem))
        \<and> path_extname env (item_filePath queueItem) \<notin> PARSEABLE_EXTENSIONS \<longrightarrow>
        safePushToQueue env queueItem st = st)
   \<and> (js_includes resolvedPath ''node_modules''
        \<and> traverse_entry env cfg resolvedPath nodes st = Inr traversed \<longrightarrow>
        queue traversed = queue st)
   \<and> (\<not> js_includes p ''node_modules''
        \<and> (path_extname env specifier = [] \<or> path_extname env specifier \<in> PARSEABLE_EXTENSIONS) \<longrightarrow>
        queue (safePushToQueue env \<lparr>item_filePath = specifier, item_parent = Some p\<rparr> st) =
          queue st @ [\<lparr>item_filePath = specifier, item_parent = Some p\<rparr>])
   \<and> (resolveFilePath_entry env cfg (item_filePath queueItem) (item_parent queueItem) = Inr resolved
        \<and> resolved \<notin> analyzedModules st
        \<and> path_extname env resolved \<in> PARSEABLE_EXTENSIONS
        \<and> fs_readFileSync env resolved = Some source
        \<and> babel_parse env source = Some ast
        \<and> traverse_entry env cfg resolved ast st = Inr visited \<longrightarrow>
        analyze_entry env cfg queueItem st =
          Inr (visited\<lparr>analyzedModules := insert resolved (analyzedModules visited)\<rparr>))
   \<and> (resolveFilePath_entry env cfg (item_filePath queueItem) (item_parent queueItem) = Inr resolved
        \<and> (resolved \<in> analyzedModules st
             \<or> path_extname env resolved \<notin> PARSEABLE_EXTENSIONS) \<longrightarrow>
        analyze_entry env cfg queueItem st = Inr st)"
  using safePushToQueue_from_node_modules[of queueItem p env st]
    safePushToQueue_unparseable[of env queueItem st]
    traverse_entry_from_node_modules[of resolvedPath env cfg nodes st traversed]
    safePushToQueue_pushes[of p env specifier st]
    analyze_entry_analyzes[of env cfg queueItem resolved st source ast visited]
    analyze_entry_skips[of env cfg queueItem resolved st]
  by blast

lemma sample_import_resolves:
  "resolveFilePath_entry sample_env sample_cfg ''m'' (Some ''/p/f.js'') =
     Inr ''/p/node_modules/m/index.js''"
  by code_simp

lemma sample_import_pushed:
  "queue (safePushToQueue sample_env \<lparr>item_filePath = ''m'', item_parent = Some ''/p/f.js''\<rparr>
            \<lparr>queue = [], analyzedModules = {}, suspiciousModules = []\<rparr>) =
     [\<lparr>item_filePath = ''m'', item_parent = Some ''/p/f.js''\<rparr>]"
  by code_simp

lemma sample_import_analyzed:
  "(case run_entry 2 sample_env sample_cfg [''/p/f.js''] of
      Some (Inr st) \<Rightarrow> ''/p/node_modules/m/index.js'' \<in> analyzedModules st
    | _ \<Rightarrow> False)"
  by code_simp

text \<open>
  Claim C9, as stated, fails: \<^verbatim>\<open>f.js\<close> imports the installed package \<^verbatim>\<open>m\<close>; the edge is
  enqueued, resolves to a file inside \<^verbatim>\<open>node_modules\<close>, and that file is analyzed.
\<close>

theorem C9_node_modules_file_analyzed_counterexample:
  "resolveFilePath_entry sample_env sample_cfg ''m'' (Some ''/p/f.js'') =
     Inr ''/p/node_modules/m/index.js''
   \<and> queue (safePushToQueue sample_env \<lparr>item_filePath = ''m'', item_parent = Some ''/p/f.js''\<rparr>
              \<lparr>queue = [], analyzedModules = {}, suspiciousModules = []\<rparr>) =
       [\<lparr>item_filePath = ''m'', item_parent = Some ''/p/f.js''\<rparr>]
   \<and> (case run_entry 2 sample_env sample_cfg [''/p/f.js''] of
        Some (Inr st) \<Rightarrow> ''/p/node_modules/m/index.js'' \<in> analyzedModules st
      | _ \<Rightarrow> False)"
  by (intro conjI sample_import_resolves sample_import_pushed sample_import_analyzed)

lemma sample_traverse_in_node_modules:
  "traverse_entry sample_env sample_cfg ''/p/node_modules/m/index.js''
     [ImportDeclaration ''./x'', plain_require ''../../d'']
     \<lparr>queue = [\<lparr>item_filePath = ''./d'', item_parent = Some ''/p/c.js''\<rparr>],
      analyzedModules = {}, suspiciousModules = []\<rparr> =
   Inr \<lparr>queue = [\<lparr>item_filePath = ''./d'', item_parent = Some ''/p/c.js''\<rparr>],
        analyzedModules = {},
        suspiciousModules =
          [(''/p/d.js'',
            \<lparr>hasDefaultExport = False, callers = [''/p/node_modules/m/index.js'']\<rparr>)]\<rparr>"
  by code_simp

lemma sample_traverse_outside_node_modules:
  "map_sum id queue
     (traverse_entry sample_env sample_cfg ''/p/f.js''
        [ImportDeclaration ''./x'', plain_require ''./d'']
        \<lparr>queue = [\<lparr>item_filePath = ''./d'', item_parent = Some ''/p/c.js''\<rparr>],
         analyzedModules = {}, suspiciousModules = []\<rparr>) =
   Inr [\<lparr>item_filePath = ''./d'', item_parent = Some ''/p/c.js''\<rparr>,
        \<lparr>item_filePath = ''./x'', item_parent = Some ''/p/f.js''\<rparr>,
        \<lparr>item_filePath = ''./d'', item_parent = Some ''/p/f.js''\<rparr>]"
  by code_simp

lemma sample_package_file:
  "path_extname sample_env ''/p/node_modules/m/index.js'' \<in> PARSEABLE_EXTENSIONS"
  "fs_readFileSync sample_env ''/p/node_modules/m/index.js'' = Some src_m"
  "babel_parse sample_env src_m = Some [ExportDefaultDeclaration]"
  by code_simp+

lemma sample_unparseable_resolves:
  "resolveFilePath_entry sample_env sample_cfg ''./node_modules/n/lib'' (Some ''/p/k.js'') =
     Inr ''/p/node_modules/n/lib.cjs''"
  by code_simp

lemma sample_unparseable_extension:
  "path_extname sample_env ''/p/node_modules/n/lib.cjs'' \<notin> PARSEABLE_EXTENSIONS"
  by code_simp

lemma sample_unparseable_run:
  "map_option (map_sum id analyzedModules) (run_entry 2 sample_env sample_cfg [''/p/k.js'']) =
     Some (Inr {''/p/k.js''})"
  by code_simp

lemma sample_edge_facts:
  "js_includes ''/p/node_modules/m/index.js'' ''node_modules''"
  "\<not> js_includes ''/p/f.js'' ''node_modules''"
  "path_extname sample_env ''m'' = []"
  "truthy (path_extname sample_env ''./missing.json'')"
  "path_extname sample_env ''./missing.json'' \<notin> PARSEABLE_EXTENSIONS"
  by code_simp+

theorem C9_node_modules_exclusion_by_referrer_witness:
  "js_includes ''/p/node_modules/m/index.js'' ''node_modules''
   \<and> safePushToQueue sample_env
        \<lparr>item_filePath = ''./x'', item_parent = Some ''/p/node_modules/m/index.js''\<rparr>
        \<lparr>queue = [\<lparr>item_filePath = ''./d'', item_parent = Some ''/p/c.js''\<rparr>],
         analyzedModules = {}, suspiciousModules = []\<rparr> =
       \<lparr>queue = [\<lparr>item_filePath = ''./d'', item_parent = Some ''/p/c.js''\<rparr>],
        analyzedModules = {}, suspiciousModules = []\<rparr>
   \<and> safePushToQueue sample_env
        \<lparr>item_filePath = ''./missing.json'', item_parent = Some ''/p/i.js''\<rparr>
        \<lparr>queue = [], analyzedModules = {}, suspiciousModules = []\<rparr> =
       \<lparr>queue = [], analyzedModules = {}, suspiciousModules = []\<rparr>
   \<and> traverse_entry sample_env sample_cfg ''/p/node_modules/m/index.js''
        [ImportDeclaration ''./x'', plain_require ''../../d'']
        \<lparr>queue = [\<lparr>item_filePath = ''./d'', item_parent = Some ''/p/c.js''\<rparr>],
         analyzedModules = {}, suspiciousModules = []\<rparr> =
       Inr \<lparr>queue = [\<lparr>item_filePath = ''./d'', item_parent = Some ''/p/c.js''\<rparr>],
            analyzedModules = {},
            suspiciousModules =
              [(''/p/d.js'',
                \<lparr>hasDefaultExport = False, callers = [''/p/node_modules/m/index.js'']\<rparr>)]\<rparr>
   \<and> queue \<lparr>queue = [\<lparr>item_filePath = ''./d'', item_parent = Some ''/p/c.js''\<rparr>],
            analyzedModules = {},
            suspiciousModules =
              [(''/p/d.js'',
                \<lparr>hasDefaultExport = False, callers = [''/p/node_modules/m/index.js'']\<rparr>)]\<rparr> =
       queue \<lparr>queue = [\<lparr>item_filePath = ''./d'', item_parent = Some ''/p/c.js''\<rparr>],
              analyzedModules = {}, suspiciousModules = []\<rparr>
   \<and> map_sum id queue
        (traverse_entry sample_env sample_cfg ''/p/f.js''
           [ImportDeclaration ''./x'', plain_require ''./d'']
           \<lparr>queue = [\<lparr>item_filePath = ''./d'', item_parent = Some ''/p/c.js''\<rparr>],
            analyzedModules = {}, suspiciousModules = []\<rparr>) =
       Inr [\<lparr>item_filePath = ''./d'', item_parent = Some ''/p/c.js''\<rparr>,
            \<lparr>item_filePath = ''./x'', item_parent = Some ''/p/f.js''\<rparr>,
            \<lparr>item_filePath = ''./d'', item_parent = Some ''/p/f.js''\<rparr>]
   \<and> \<not> js_includes ''/p/f.js'' ''node_modules''
   \<and> queue (safePushToQueue sample_env \<lparr>item_filePath = ''m'', item_parent = Some ''/p/f.js''\<rparr>
              \<lparr>queue = [\<lparr>item_filePath = ''./d'', item_parent = Some ''/p/c.js''\<rparr>],
               analyzedModules = {}, suspiciousModules = []\<rparr>) =
       queue \<lparr>queue = [\<lparr>item_filePath = ''./d'', item_parent = Some ''/p/c.js''\<rparr>],
              analyzedModules = {}, suspiciousModules = []\<rparr>
         @ [\<lparr>item_filePath = ''m'', item_parent = Some ''/p/f.js''\<rparr>]
   \<and> resolveFilePath_entry sample_env sample_cfg ''m'' (Some ''/p/f.js'') =
       Inr ''/p/node_modules/m/index.js''
   \<and> analyze_entry sample_env sample_cfg \<lparr>item_filePath = ''m'', item_parent = Some ''/p/f.js''\<rparr>
        \<lparr>queue = [], analyzedModules = {}, suspiciousModules = []\<rparr> =
       Inr (\<lparr>queue = [], analyzedModules = {}, suspiciousModules = []\<rparr>
              \<lparr>analyzedModules :=
                 insert ''/p/node_modules/m/index.js''
                   (analyzedModules \<lparr>queue = [], analyzedModules = {}, suspiciousModules = []\<rparr>)\<rparr>)
   \<and> resolveFilePath_entry sample_env sample_cfg ''./node_modules/n/lib'' (Some ''/p/k.js'') =
       Inr ''/p/node_modules/n/lib.cjs''
   \<and> path_extname sample_env ''/p/node_modules/n/lib.cjs'' \<notin> PARSEABLE_EXTENSIONS
   \<and> analyze_entry sample_env sample_cfg
        \<lparr>item_filePath = ''./node_modules/n/lib'', item_parent = Some ''/p/k.js''\<rparr>
        \<lparr>queue = [], analyzedModules = {}, suspiciousModules = []\<rparr> =
       Inr \<lparr>queue = [], analyzedModules = {}, suspiciousModules = []\<rparr>
   \<and> map_option (map_sum id analyzedModules) (run_entry 2 sample_env sample_cfg [''/p/k.js'']) =
       Some (Inr {''/p/k.js''})"
proof -
  let ?st0 = "\<lparr>queue = [], analyzedModules = {}, suspiciousModules = []\<rparr>"
  let ?st1 = "\<lparr>queue = [\<lparr>item_filePath = ''./d'', item_parent = Some ''/p/c.js''\<rparr>],
         analyzedModules = {}, suspiciousModules = []\<rparr>"
  let ?st2 = "\<lparr>queue = [\<lparr>item_filePath = ''./d'', item_parent = Some ''/p/c.js''\<rparr>],
            analyzedModules = {},
            suspiciousModules =
              [(''/p/d.js'',
                \<lparr>hasDefaultExport = False, callers = [''/p/node_modules/m/index.js'']\<rparr>)]\<rparr>"
  let ?x = "\<lparr>item_filePath = ''./x'', item_parent = Some ''/p/node_modules/m/index.js''\<rparr>"
  let ?j = "\<lparr>item_filePath = ''./missing.json'', item_parent = Some ''/p/i.js''\<rparr>"
  let ?m = "\<lparr>item_filePath = ''m'', item_parent = Some ''/p/f.js''\<rparr>"
  let ?n = "\<lparr>item_filePath = ''./node_modules/n/lib'', item_parent = Some ''/p/k.js''\<rparr>"
  let ?pkg = "''/p/node_modules/m/index.js''"
  note inside = C9_node_modules_exclusion_by_referrer[where env = sample_env and cfg = sample_cfg
      and queueItem = ?x and p = ?pkg and st = ?st1 and resolvedPath = ?pkg
      and nodes = "[ImportDeclaration ''./x'', plain_require ''../../d'']" and traversed = ?st2]
  note json = C9_node_modules_exclusion_by_referrer[where env = sample_env and cfg = sample_cfg
      and queueItem = ?j and st = ?st0]
  note outside = C9_node_modules_exclusion_by_referrer[where env = sample_env and cfg = sample_cfg
      and p = "''/p/f.js''" and specifier = "''m''" and st = ?st1]
  note analyzed = C9_node_modules_exclusion_by_referrer[where env = sample_env and cfg = sample_cfg
      and queueItem = ?m and st = ?st0 and resolved = ?pkg and source = src_m
      and ast = "[ExportDefaultDeclaration]" and visited = ?st0]
  note skipped = C9_node_modules_exclusion_by_referrer[where env = sample_env and cfg = sample_cfg
      and queueItem = ?n and st = ?st0 and resolved = "''/p/node_modules/n/lib.cjs''"]
  have px: "item_parent ?x = Some ?pkg" by simp
  have ej: "truthy (path_extname sample_env (item_filePath ?j))"
    "path_extname sample_env (item_filePath ?j) \<notin> PARSEABLE_EXTENSIONS"
    using sample_edge_facts(4,5) by simp_all
  have rm: "resolveFilePath_entry sample_env sample_cfg (item_filePath ?m) (item_parent ?m) = Inr ?pkg"
    using sample_import_resolves by simp
  have rn: "resolveFilePath_entry sample_env sample_cfg (item_filePath ?n) (item_parent ?n) =
      Inr ''/p/node_modules/n/lib.cjs''"
    using sample_unparseable_resolves by simp
  have fresh: "?pkg \<notin> analyzedModules ?st0" by simp
  have tr: "traverse_entry sample_env sample_cfg ?pkg [ExportDefaultDeclaration] ?st0 = Inr ?st0"
    by (simp add: visit_entry_def markSuspiciousModule_def)
  from inside px sample_edge_facts(1) have c1: "safePushToQueue sample_env ?x ?st1 = ?st1"
    by blast
  from json ej have c2: "safePushToQueue sample_env ?j ?st0 = ?st0" by blast
  from inside sample_edge_facts(1) sample_traverse_in_node_modules
  have c3: "queue ?st2 = queue ?st1" by blast
  from outside sample_edge_facts(2,3)
  have c4: "queue (safePushToQueue sample_env ?m ?st1) = queue ?st1 @ [?m]" by blast
  from analyzed rm fresh sample_package_file tr
  have c5: "analyze_entry sample_env sample_cfg ?m ?st0 =
      Inr (?st0\<lparr>analyzedModules := insert ?pkg (analyzedModules ?st0)\<rparr>)" by blast
  from skipped rn sample_unparseable_extension
  have c6: "analyze_entry sample_env sample_cfg ?n ?st0 = Inr ?st0" by blast
  from sample_edge_facts(1) c1 c2 sample_traverse_in_node_modules c3
    sample_traverse_outside_node_modules sample_edge_facts(2) c4 sample_import_resolves c5
    sample_unparseable_resolves sample_unparseable_extension c6 sample_unparseable_run
  show ?thesis by (intro conjI)
qed

end
